theory Spec2Isabelle
  imports
    Main
    "HOL-Library.Char_ord"
    "HOL-Library.List_Lexorder"
    "HOL-Library.Multiset"
begin

section \<open>Spreadsheet tables\<close>

text \<open>
  Both scripts hold a pandas \<open>DataFrame\<close> read from a spreadsheet. A cell of such a frame
  is a number, a text, or blank (pandas' \<open>NaN\<close>). Numbers are modelled as integers;
  fractional values, dates and booleans are outside the model.
\<close>

datatype cell = Number int | Text string | Blank

text \<open>
  A frame is its ordered column labels and its rows in order, each row holding one cell
  per column. The type of the cells is a parameter, because the second script stores
  values of the web service's answer in a frame.
\<close>

record 'a table =
  columns :: "string list"
  rows :: "'a list list"

type_synonym sheet = "cell table"

definition wf_table :: "'a table \<Rightarrow> bool" where
  "wf_table df = list_all (\<lambda>row. length row = length (columns df)) (rows df)"

datatype error = KeyError string | ValueError string

definition and_then :: "'e + 'a \<Rightarrow> ('a \<Rightarrow> 'e + 'b) \<Rightarrow> 'e + 'b" where
  "and_then r f = (case r of Inl e \<Rightarrow> Inl e | Inr x \<Rightarrow> f x)"

subsection \<open>Python's \<open>str\<close> of a cell\<close>

definition digit_char :: "nat \<Rightarrow> char" where
  "digit_char d = char_of (48 + d)"

fun str_nat :: "nat \<Rightarrow> string" where
  "str_nat n = (if n < 10 then [digit_char n] else str_nat (n div 10) @ [digit_char (n mod 10)])"

declare str_nat.simps [simp del]

definition str_int :: "int \<Rightarrow> string" where
  "str_int i = (if i < 0 then CHR ''-'' # str_nat (nat (- i)) else str_nat (nat i))"

text \<open>\<open>astype(str)\<close> and f-string formatting of one cell; a blank cell reads \<open>nan\<close>.\<close>

fun astype_str :: "cell \<Rightarrow> string" where
  "astype_str (Number i) = str_int i"
| "astype_str (Text s) = s"
| "astype_str Blank = ''nan''"

fun startswith :: "string \<Rightarrow> string \<Rightarrow> bool" where
  "startswith s [] = True"
| "startswith [] (p # ps) = False"
| "startswith (c # s) (p # ps) = (c = p \<and> startswith s ps)"

text \<open>\<open>Series.str.contains(pat)\<close> for a pattern without regular-expression operators.\<close>

fun str_contains :: "string \<Rightarrow> string \<Rightarrow> bool" where
  "str_contains [] pat = (pat = [])"
| "str_contains (c # s) pat = (startswith (c # s) pat \<or> str_contains s pat)"

subsection \<open>Column access\<close>

fun index_of :: "'a \<Rightarrow> 'a list \<Rightarrow> nat option" where
  "index_of x [] = None"
| "index_of x (y # ys) = (if x = y then Some 0 else map_option Suc (index_of x ys))"

text \<open>\<open>df[c]\<close>: the values of column \<open>c\<close>, or \<open>KeyError\<close>.\<close>

definition getitem :: "'a table \<Rightarrow> string \<Rightarrow> error + 'a list" where
  "getitem df c =
     (case index_of c (columns df) of
        None \<Rightarrow> Inl (KeyError c)
      | Some i \<Rightarrow> Inr (map (\<lambda>row. row ! i) (rows df)))"

text \<open>
  \<open>df[c] = values\<close>: an existing column \<open>c\<close> is overwritten where it stands, a new one
  is appended on the right; a list of the wrong length is a \<open>ValueError\<close>.
\<close>

definition setitem :: "'a table \<Rightarrow> string \<Rightarrow> 'a list \<Rightarrow> error + 'a table" where
  "setitem df c vs =
     (if length vs \<noteq> length (rows df)
      then Inl (ValueError ''Length of values does not match length of index'')
      else case index_of c (columns df) of
        None \<Rightarrow> Inr \<lparr>columns = columns df @ [c],
                      rows = map2 (\<lambda>row v. row @ [v]) (rows df) vs\<rparr>
      | Some i \<Rightarrow> Inr (df\<lparr>rows := map2 (\<lambda>row v. row[i := v]) (rows df) vs\<rparr>))"

text \<open>\<open>df[c] = v\<close> for a single value \<open>v\<close>, which fills the whole column.\<close>

definition setitem_scalar :: "'a table \<Rightarrow> string \<Rightarrow> 'a \<Rightarrow> 'a table" where
  "setitem_scalar df c v =
     (case index_of c (columns df) of
        None \<Rightarrow> \<lparr>columns = columns df @ [c], rows = map (\<lambda>row. row @ [v]) (rows df)\<rparr>
      | Some i \<Rightarrow> df\<lparr>rows := map (\<lambda>row. row[i := v]) (rows df)\<rparr>)"

text \<open>The cell of one row in column \<open>c\<close>, if the row has it.\<close>

definition cell_at :: "string list \<Rightarrow> 'a list \<Rightarrow> string \<Rightarrow> 'a option" where
  "cell_at cols row c =
     (case index_of c cols of
        None \<Rightarrow> None
      | Some i \<Rightarrow> if i < length row then Some (row ! i) else None)"

text \<open>\<open>row[c]\<close> on a row that \<open>iterrows\<close> yields: the cell, or \<open>KeyError\<close>.\<close>

definition row_getitem :: "string list \<Rightarrow> 'a list \<Rightarrow> string \<Rightarrow> error + 'a" where
  "row_getitem cols row c = (case cell_at cols row c of None \<Rightarrow> Inl (KeyError c) | Some v \<Rightarrow> Inr v)"

section \<open>The Cleaner: \<open>clean_sort_data.py\<close>\<close>

text \<open>
  \<open>drop_duplicates\<close> keeps the first of equal rows, in order; blank cells count as equal
  to each other.
\<close>

fun keep_first :: "'a list \<Rightarrow> 'a list \<Rightarrow> 'a list" where
  "keep_first seen [] = []"
| "keep_first seen (x # xs) =
     (if x \<in> set seen then keep_first seen xs else x # keep_first (x # seen) xs)"

definition drop_duplicates :: "'a table \<Rightarrow> 'a table" where
  "drop_duplicates df = df\<lparr>rows := keep_first [] (rows df)\<rparr>"

text \<open>\<open>row.astype(str).str.contains('Total').any()\<close>\<close>

definition contains_Total :: "cell list \<Rightarrow> bool" where
  "contains_Total row = list_ex (\<lambda>c. str_contains (astype_str c) ''Total'') row"

text \<open>\<open>df[mask]\<close>: the rows where the mask holds, as a new frame.\<close>

definition select_rows :: "('a list \<Rightarrow> bool) \<Rightarrow> 'a table \<Rightarrow> 'a table" where
  "select_rows keep df = df\<lparr>rows := filter keep (rows df)\<rparr>"

fun fill_cell :: "cell \<Rightarrow> cell \<Rightarrow> cell" where
  "fill_cell v Blank = v"
| "fill_cell v c = c"

definition fillna :: "cell \<Rightarrow> sheet \<Rightarrow> sheet" where
  "fillna v df = df\<lparr>rows := map (map (fill_cell v)) (rows df)\<rparr>"

text \<open>
  The order in which \<open>sort_values\<close> with several keys ranks the values of a column:
  numbers by value, before texts by code point, before blanks.
\<close>

fun cell_le :: "cell \<Rightarrow> cell \<Rightarrow> bool" where
  "cell_le (Number a) (Number b) = (a \<le> b)"
| "cell_le (Number a) (Text t) = True"
| "cell_le (Number a) Blank = True"
| "cell_le (Text s) (Number b) = False"
| "cell_le (Text s) (Text t) = (s \<le> t)"
| "cell_le (Text s) Blank = True"
| "cell_le Blank (Number b) = False"
| "cell_le Blank (Text t) = False"
| "cell_le Blank Blank = True"

instantiation cell :: linorder
begin

definition less_eq_cell :: "cell \<Rightarrow> cell \<Rightarrow> bool" where
  "less_eq_cell a b = cell_le a b"

definition less_cell :: "cell \<Rightarrow> cell \<Rightarrow> bool" where
  "less_cell a b = (cell_le a b \<and> \<not> cell_le b a)"

instance
proof
  fix x y z :: cell
  show "(x < y) = (x \<le> y \<and> \<not> y \<le> x)"
    by (simp add: less_cell_def less_eq_cell_def)
  show "x \<le> x"
    by (cases x) (simp_all add: less_eq_cell_def)
  show "x \<le> y \<Longrightarrow> y \<le> z \<Longrightarrow> x \<le> z"
    by (cases x; cases y; cases z) (auto simp: less_eq_cell_def)
  show "x \<le> y \<Longrightarrow> y \<le> x \<Longrightarrow> x = y"
    by (cases x; cases y) (auto simp: less_eq_cell_def)
  show "x \<le> y \<or> y \<le> x"
    by (cases x; cases y) (auto simp: less_eq_cell_def)
qed

end

text \<open>
  \<open>df.sort_values(by=keys)\<close>: a stable sort of the rows by the tuple of their cells in
  the key columns; a key that is no column is a \<open>KeyError\<close>.
\<close>

fun key_indices :: "string list \<Rightarrow> string list \<Rightarrow> error + nat list" where
  "key_indices cols [] = Inr []"
| "key_indices cols (k # ks) =
     (case index_of k cols of
        None \<Rightarrow> Inl (KeyError k)
      | Some i \<Rightarrow> and_then (key_indices cols ks) (\<lambda>ixs. Inr (i # ixs)))"

definition sort_values :: "string list \<Rightarrow> sheet \<Rightarrow> error + sheet" where
  "sort_values keys df =
     and_then (key_indices (columns df) keys)
       (\<lambda>ixs. Inr (df\<lparr>rows := sort_key (\<lambda>row. map (\<lambda>i. row ! i) ixs) (rows df)\<rparr>))"

definition sort_keys :: "string list" where
  "sort_keys = [''continent'', ''country'', ''region'', ''state'',
                ''education institution'', ''field of study'']"

text \<open>
  The body of \<open>clean_sort_create_columns\<close> after the in-place \<open>drop_duplicates\<close>. An
  exception is caught by the function's handler, which logs it and ends the process:
  that is the result \<open>Inl\<close>. The lines that the Cleaner logs are left out.
\<close>

definition clean_steps :: "sheet \<Rightarrow> error + sheet" where
  "clean_steps df =
     (let df1 = select_rows (\<lambda>row. \<not> contains_Total row) df;
          df2 = fillna (Text ''Unknown'') df1;
          df3 = setitem_scalar df2 ''continent'' (Text ''Unknown'')
      in and_then (getitem df3 ''Country Name'') (\<lambda>v.
         and_then (setitem df3 ''country'' v) (\<lambda>df4.
         and_then (getitem df4 ''Region'') (\<lambda>v.
         and_then (setitem df4 ''region'' v) (\<lambda>df5.
         let df6 = setitem_scalar df5 ''state'' (Text ''Unknown'')
         in and_then (getitem df6 ''Education Institute'') (\<lambda>v.
            and_then (setitem df6 ''education institution'' v) (\<lambda>df7.
            and_then (getitem df7 ''Field of Study'') (\<lambda>v.
            and_then (setitem df7 ''field of study'' v) (\<lambda>df8.
            sort_values sort_keys df8)))))))))"

text \<open>
  \<open>clean_sort_create_columns(df)\<close>. \<open>drop_duplicates(inplace=True)\<close> changes the
  caller's frame, so the function returns that frame as it leaves it, next to its result.
\<close>

definition clean_sort_create_columns :: "sheet \<Rightarrow> sheet \<times> (error + sheet)" where
  "clean_sort_create_columns df0 =
     (let df = drop_duplicates df0 in (df, clean_steps df))"

subsection \<open>The same steps on one row\<close>

text \<open>
  What the column assignments do to a single row: \<open>put_cell\<close> is \<open>setitem\<close> on one row,
  \<open>copy_cell\<close> is \<open>df[dst] = df[src]\<close> on one row, and \<open>derived_row\<close> is the row that
  \<open>clean_steps\<close> makes from an input row before sorting.
\<close>

definition add_column :: "string list \<Rightarrow> string \<Rightarrow> string list" where
  "add_column cols c = (case index_of c cols of None \<Rightarrow> cols @ [c] | Some i \<Rightarrow> cols)"

definition put_cell :: "string list \<Rightarrow> string \<Rightarrow> 'a \<Rightarrow> 'a list \<Rightarrow> 'a list" where
  "put_cell cols c v row = (case index_of c cols of None \<Rightarrow> row @ [v] | Some i \<Rightarrow> row[i := v])"

definition copy_cell :: "string list \<Rightarrow> string \<Rightarrow> string \<Rightarrow> 'a list \<Rightarrow> 'a list" where
  "copy_cell cols dst src row =
     (case index_of src cols of None \<Rightarrow> row | Some j \<Rightarrow> put_cell cols dst (row ! j) row)"

definition derived_row :: "string list \<Rightarrow> cell list \<Rightarrow> cell list" where
  "derived_row c0 row =
     (let r0 = map (fill_cell (Text ''Unknown'')) row;
          r1 = put_cell c0 ''continent'' (Text ''Unknown'') r0;
          c1 = add_column c0 ''continent'';
          r2 = copy_cell c1 ''country'' ''Country Name'' r1;
          c2 = add_column c1 ''country'';
          r3 = copy_cell c2 ''region'' ''Region'' r2;
          c3 = add_column c2 ''region'';
          r4 = put_cell c3 ''state'' (Text ''Unknown'') r3;
          c4 = add_column c3 ''state'';
          r5 = copy_cell c4 ''education institution'' ''Education Institute'' r4;
          c5 = add_column c4 ''education institution''
      in copy_cell c5 ''field of study'' ''Field of Study'' r5)"

definition derived_columns :: "string list \<Rightarrow> string list" where
  "derived_columns c0 = foldl add_column c0 sort_keys"

definition source_columns :: "string list" where
  "source_columns = [''Country Name'', ''Region'', ''Education Institute'', ''Field of Study'']"

text \<open>The cells of a row in the six key columns, in the order of the keys.\<close>

definition key_cells :: "string list \<Rightarrow> cell list \<Rightarrow> cell list" where
  "key_cells cols row =
     (case key_indices cols sort_keys of Inl e \<Rightarrow> [] | Inr ixs \<Rightarrow> map (\<lambda>i. row ! i) ixs)"

text \<open>The rows that are left after \<open>drop_duplicates\<close> and the filter on \<open>Total\<close>.\<close>

definition surviving_rows :: "sheet \<Rightarrow> cell list list" where
  "surviving_rows df = filter (\<lambda>row. \<not> contains_Total row) (keep_first [] (rows df))"

text \<open>The keys of a row as strings, as \<open>str\<close> gives them.\<close>

definition string_keys :: "string list \<Rightarrow> cell list \<Rightarrow> string list" where
  "string_keys cols row = map astype_str (key_cells cols row)"

text \<open>The four derived columns that are copies of a column of the sheet.\<close>

definition copied_columns :: "string list" where
  "copied_columns = [''country'', ''region'', ''education institution'', ''field of study'']"

section \<open>The Annotator: \<open>address_geocode_script.py\<close>\<close>

subsection \<open>The lookup\<close>

text \<open>
  The body of the service's answer is a JSON value, parsed into Python objects (an
  object becomes a \<open>dict\<close>, with its keys in order). Fractional numbers are outside the
  model.
\<close>

datatype json =
  JNull | JBool bool | JNum int | JStr string | JArr "json list" | JObj "(string \<times> json) list"

text \<open>
  The exceptions that the handlers of \<open>get_address_suggestions\<close> tell apart: a
  \<open>requests.exceptions.RequestException\<close> and any other \<open>Exception\<close>, each with the
  text that \<open>str\<close> gives for it.
\<close>

datatype exn = RequestException string | Exception string

datatype level = INFO | ERROR

type_synonym log = "(level \<times> string) list"

text \<open>
  What the script cannot decide itself is a parameter: \<open>http_get url params\<close> stands for
  \<open>requests.get\<close>, \<open>raise_for_status\<close> and \<open>response.json()\<close> together and gives the
  parsed body or the exception one of them raises; \<open>to_excel path\<close> is \<open>None\<close> when the
  file at \<open>path\<close> can be written and the text of the exception otherwise. The two files
  of a run have different paths, so every pattern of failures is covered.
\<close>

record env =
  http_get :: "string \<Rightarrow> (string \<times> string) list \<Rightarrow> exn + json"
  to_excel :: "string \<Rightarrow> string option"

definition api_key :: string where
  "api_key = ''6a0f63b96e30489b9a5c8e7d07ed7ed0''"

definition autocomplete_endpoint :: string where
  "autocomplete_endpoint = ''https://api.geoapify.com/v1/geocode/search''"

definition quoted :: "string \<Rightarrow> string" where
  "quoted s = [CHR 0x27] @ s @ [CHR 0x27]"

fun type_name :: "json \<Rightarrow> string" where
  "type_name JNull = ''NoneType''"
| "type_name (JBool b) = ''bool''"
| "type_name (JNum n) = ''int''"
| "type_name (JStr s) = ''str''"
| "type_name (JArr xs) = ''list''"
| "type_name (JObj kvs) = ''dict''"

text \<open>\<open>x.get(k, default)\<close>: only a \<open>dict\<close> has the method.\<close>

fun dict_get :: "json \<Rightarrow> string \<Rightarrow> json \<Rightarrow> exn + json" where
  "dict_get (JObj kvs) k d = Inr (case map_of kvs k of None \<Rightarrow> d | Some v \<Rightarrow> v)"
| "dict_get v k d =
     Inl (Exception (quoted (type_name v) @ '' object has no attribute '' @ quoted ''get''))"

text \<open>The truth value that \<open>if suggestions:\<close> tests.\<close>

fun truthy :: "json \<Rightarrow> bool" where
  "truthy JNull = False"
| "truthy (JBool b) = b"
| "truthy (JNum n) = (n \<noteq> 0)"
| "truthy (JStr s) = (s \<noteq> [])"
| "truthy (JArr xs) = (xs \<noteq> [])"
| "truthy (JObj kvs) = (kvs \<noteq> [])"

text \<open>
  \<open>x[0]\<close>. The keys of a parsed JSON object are strings, so on a \<open>dict\<close> it is
  \<open>KeyError(0)\<close>, whose text is \<open>0\<close>.
\<close>

fun first_item :: "json \<Rightarrow> exn + json" where
  "first_item (JArr (x # xs)) = Inr x"
| "first_item (JArr []) = Inl (Exception ''list index out of range'')"
| "first_item (JStr (c # s)) = Inr (JStr [c])"
| "first_item (JStr []) = Inl (Exception ''string index out of range'')"
| "first_item (JObj kvs) = Inl (Exception ''0'')"
| "first_item v = Inl (Exception (quoted (type_name v) @ '' object is not subscriptable''))"

text \<open>
  The request for one address, with its \<open>params\<close>: the parsed body of the answer, or
  the exception raised on the way.
\<close>

definition request :: "env \<Rightarrow> string \<Rightarrow> exn + json" where
  "request e address =
     http_get e autocomplete_endpoint [(''text'', address), (''apiKey'', api_key)]"

text \<open>The \<open>try\<close> block of \<open>get_address_suggestions\<close>.\<close>

definition request_suggestion :: "env \<Rightarrow> string \<Rightarrow> exn + json" where
  "request_suggestion e address =
     and_then (request e address)
       (\<lambda>body.
     and_then (dict_get body ''features'' (JArr [])) (\<lambda>suggestions.
       if truthy suggestions
       then and_then (first_item suggestions) (\<lambda>first.
            and_then (dict_get first ''properties'' (JObj [])) (\<lambda>properties.
            dict_get properties ''formatted'' (JStr ''No suggestion'')))
       else Inr (JStr ''No suggestion'')))"

text \<open>
  \<open>get_address_suggestions(address)\<close>: the value returned and the lines it logs.
\<close>

definition get_address_suggestions :: "env \<Rightarrow> string \<Rightarrow> json \<times> log" where
  "get_address_suggestions e address =
     (case request_suggestion e address of
        Inr v \<Rightarrow> (v, [])
      | Inl (RequestException m) \<Rightarrow>
          (JStr (''Request error: '' @ m),
           [(ERROR, ''Request error for address '' @ quoted address @ '': '' @ m)])
      | Inl (Exception m) \<Rightarrow>
          (JStr (''Error: '' @ m),
           [(ERROR, ''Error for address '' @ quoted address @ '': '' @ m)]))"

subsection \<open>The script\<close>

text \<open>
  A cell of the processed frame is a cell of the sheet or, in the column
  \<open>Address Suggestions\<close>, a value returned by the lookup.
\<close>

datatype pyobj = Sheet cell | Api json

definition win_join :: "string \<Rightarrow> string \<Rightarrow> string" where
  "win_join dir name = dir @ [CHR 0x5C] @ name"

definition output_dir :: string where
  "output_dir =
     win_join (win_join (win_join (win_join (win_join ''C:'' ''Users'') ''Alex.Crawley'')
       ''OneDrive - Bentley Systems, Inc'') ''Documents'') ''PY DATA''"

definition autocomplete_file_path :: string where
  "autocomplete_file_path = win_join output_dir ''processed_with_address_suggestions.xlsx''"

definition unprocessed_file_path :: string where
  "unprocessed_file_path = win_join output_dir ''unprocessed_rows.xlsx''"

text \<open>
  \<open>df.iterrows()\<close> on a frame as \<open>read_excel\<close> loads it: the rows with their index
  labels \<open>0, 1, 2, ...\<close>
\<close>

definition iterrows :: "'a table \<Rightarrow> (nat \<times> 'a list) list" where
  "iterrows df = zip [0 ..< length (rows df)] (rows df)"

text \<open>The f-string that makes the address of a row.\<close>

definition address_of :: "cell \<Rightarrow> cell \<Rightarrow> string" where
  "address_of institute country = astype_str institute @ '', '' @ astype_str country"

record loop_state =
  suggestions :: "json list"
  unprocessed_rows :: "cell list list"
  logged :: log

text \<open>
  The \<open>for\<close> loop. A \<open>KeyError\<close> in its body is caught nowhere and ends the script.
\<close>

fun annotate_rows :: "env \<Rightarrow> string list \<Rightarrow> (nat \<times> cell list) list \<Rightarrow> loop_state
    \<Rightarrow> error + loop_state" where
  "annotate_rows e cols [] st = Inr st"
| "annotate_rows e cols ((index, row) # rest) st =
     (if index \<ge> 1
      then annotate_rows e cols rest (st\<lparr>unprocessed_rows := unprocessed_rows st @ [row]\<rparr>)
      else and_then (row_getitem cols row ''Education Institute'') (\<lambda>institute.
           and_then (row_getitem cols row ''Country Name'') (\<lambda>country.
           let address = address_of institute country;
               (suggestion, lines) = get_address_suggestions e address
           in annotate_rows e cols rest
                (st\<lparr>suggestions := suggestions st @ [suggestion],
                    logged := logged st @ lines @
                      [(INFO, ''Processed '' @ str_int (int index + 1) @ '' addresses.'')]\<rparr>))))"

text \<open>\<open>df.iloc[:n].copy()\<close>\<close>

definition iloc_head :: "nat \<Rightarrow> 'a table \<Rightarrow> 'a table" where
  "iloc_head n df = df\<lparr>rows := take n (rows df)\<rparr>"

definition map_cells :: "('a \<Rightarrow> 'b) \<Rightarrow> 'a table \<Rightarrow> 'b table" where
  "map_cells f df = \<lparr>columns = columns df, rows = map (map f) (rows df)\<rparr>"

text \<open>
  \<open>pd.DataFrame(rows)\<close> on a list of the rows of a frame with the columns \<open>cols\<close>: no
  rows give a frame without columns.
\<close>

definition DataFrame :: "string list \<Rightarrow> 'a list list \<Rightarrow> 'a table" where
  "DataFrame cols rs = (if rs = [] then \<lparr>columns = [], rows = []\<rparr> else \<lparr>columns = cols, rows = rs\<rparr>)"

text \<open>
  One \<open>try\<close> block around \<open>to_excel\<close>: the file that is written, if any, and the line
  that is logged.
\<close>

definition save_excel :: "env \<Rightarrow> string \<Rightarrow> 'a \<Rightarrow> string \<Rightarrow> string \<Rightarrow> 'a option \<times> log" where
  "save_excel e path frame saved failed =
     (case to_excel e path of
        None \<Rightarrow> (Some frame, [(INFO, saved @ path @ ''.'')])
      | Some m \<Rightarrow> (None, [(ERROR, failed @ m)]))"

record run =
  processed_df :: "pyobj table"
  unprocessed_df :: sheet
  processed_file :: "pyobj table option"
  unprocessed_file :: "sheet option"
  run_log :: log

text \<open>The script from the loop on, for the frame \<open>df\<close> that was loaded.\<close>

definition annotate :: "env \<Rightarrow> sheet \<Rightarrow> error + run" where
  "annotate e df =
     and_then (annotate_rows e (columns df) (iterrows df)
                 \<lparr>suggestions = [], unprocessed_rows = [],
                  logged = [(INFO, ''Starting address autocomplete suggestions...'')]\<rparr>)
       (\<lambda>st.
     and_then (setitem (map_cells Sheet (iloc_head 1 df)) ''Address Suggestions''
                 (map Api (suggestions st)))
       (\<lambda>processed.
     let log1 = logged st @
           [(INFO, ''Saving file with address suggestions to: '' @ autocomplete_file_path)];
         (file1, lines1) = save_excel e autocomplete_file_path processed
           ''The new file with address suggestions has been saved to ''
           ''Error saving Excel file: '';
         log2 = log1 @ lines1 @
           [(INFO, ''Saving unprocessed rows to: '' @ unprocessed_file_path)];
         unprocessed = DataFrame (columns df) (unprocessed_rows st);
         (file2, lines2) = save_excel e unprocessed_file_path unprocessed
           ''The unprocessed rows have been saved to ''
           ''Error saving unprocessed rows: ''
     in Inr \<lparr>processed_df = processed, unprocessed_df = unprocessed,
             processed_file = file1, unprocessed_file = file2,
             run_log = log2 @ lines2\<rparr>))"

section \<open>Example tables\<close>

text \<open>
  A sheet with a repeated row, a row of totals and blank cells, and the frame that the
  Cleaner makes of it.
\<close>

definition example_sheet :: sheet where
  "example_sheet =
     \<lparr>columns = [''Country Name'', ''Region'', ''Education Institute'', ''Field of Study'',
                 ''Students''],
      rows = [[Text ''Kenya'', Text ''Nairobi'', Text ''Strathmore'', Text ''Law'', Number 40],
              [Text ''India'', Blank, Text ''IIT Delhi'', Text ''Physics'', Blank],
              [Text ''Kenya'', Text ''Nairobi'', Text ''Strathmore'', Text ''Law'', Number 40],
              [Text ''Grand Total'', Blank, Blank, Blank, Number 80]]\<rparr>"

definition example_cleaned :: sheet where
  "example_cleaned =
     \<lparr>columns = [''Country Name'', ''Region'', ''Education Institute'', ''Field of Study'',
                 ''Students'', ''continent'', ''country'', ''region'', ''state'',
                 ''education institution'', ''field of study''],
      rows = [[Text ''India'', Text ''Unknown'', Text ''IIT Delhi'', Text ''Physics'',
               Text ''Unknown'', Text ''Unknown'', Text ''India'', Text ''Unknown'',
               Text ''Unknown'', Text ''IIT Delhi'', Text ''Physics''],
              [Text ''Kenya'', Text ''Nairobi'', Text ''Strathmore'', Text ''Law'', Number 40,
               Text ''Unknown'', Text ''Kenya'', Text ''Nairobi'', Text ''Unknown'',
               Text ''Strathmore'', Text ''Law'']]\<rparr>"

text \<open>A sheet whose regions are numbers.\<close>

definition numbered_sheet :: sheet where
  "numbered_sheet =
     \<lparr>columns = [''Country Name'', ''Region'', ''Education Institute'', ''Field of Study''],
      rows = [[Text ''Kenya'', Number 10, Text ''Strathmore'', Text ''Law''],
              [Text ''Kenya'', Number 9, Text ''Strathmore'', Text ''Law'']]\<rparr>"

definition numbered_cleaned :: sheet where
  "numbered_cleaned =
     \<lparr>columns = [''Country Name'', ''Region'', ''Education Institute'', ''Field of Study'',
                 ''continent'', ''country'', ''region'', ''state'',
                 ''education institution'', ''field of study''],
      rows = [[Text ''Kenya'', Number 9, Text ''Strathmore'', Text ''Law'',
               Text ''Unknown'', Text ''Kenya'', Number 9, Text ''Unknown'',
               Text ''Strathmore'', Text ''Law''],
              [Text ''Kenya'', Number 10, Text ''Strathmore'', Text ''Law'',
               Text ''Unknown'', Text ''Kenya'', Number 10, Text ''Unknown'',
               Text ''Strathmore'', Text ''Law'']]\<rparr>"

text \<open>
  A sheet with a repeated row, where one more row has the text \<open>Unknown\<close> in the place
  of their blank cell.
\<close>

definition unknown_sheet :: sheet where
  "unknown_sheet =
     \<lparr>columns = [''Country Name'', ''Region'', ''Education Institute'', ''Field of Study''],
      rows = [[Text ''Kenya'', Blank, Text ''Strathmore'', Text ''Law''],
              [Text ''Kenya'', Blank, Text ''Strathmore'', Text ''Law''],
              [Text ''Kenya'', Text ''Unknown'', Text ''Strathmore'', Text ''Law'']]\<rparr>"

definition unknown_cleaned :: sheet where
  "unknown_cleaned =
     \<lparr>columns = [''Country Name'', ''Region'', ''Education Institute'', ''Field of Study'',
                 ''continent'', ''country'', ''region'', ''state'',
                 ''education institution'', ''field of study''],
      rows = [[Text ''Kenya'', Text ''Unknown'', Text ''Strathmore'', Text ''Law'',
               Text ''Unknown'', Text ''Kenya'', Text ''Unknown'', Text ''Unknown'',
               Text ''Strathmore'', Text ''Law''],
              [Text ''Kenya'', Text ''Unknown'', Text ''Strathmore'', Text ''Law'',
               Text ''Unknown'', Text ''Kenya'', Text ''Unknown'', Text ''Unknown'',
               Text ''Strathmore'', Text ''Law'']]\<rparr>"

text \<open>A sheet that already has columns named \<open>country\<close> and \<open>state\<close>.\<close>

definition labelled_sheet :: sheet where
  "labelled_sheet =
     \<lparr>columns = [''Country Name'', ''Region'', ''Education Institute'', ''Field of Study'',
                 ''country'', ''state''],
      rows = [[Text ''Kenya'', Text ''Nairobi'', Text ''Strathmore'', Text ''Law'',
               Blank, Text ''Nairobi County'']]\<rparr>"

definition labelled_cleaned :: sheet where
  "labelled_cleaned =
     \<lparr>columns = [''Country Name'', ''Region'', ''Education Institute'', ''Field of Study'',
                 ''country'', ''state'', ''continent'', ''region'',
                 ''education institution'', ''field of study''],
      rows = [[Text ''Kenya'', Text ''Nairobi'', Text ''Strathmore'', Text ''Law'',
               Text ''Kenya'', Text ''Unknown'', Text ''Unknown'', Text ''Nairobi'',
               Text ''Strathmore'', Text ''Law'']]\<rparr>"

text \<open>An answer of the service with two features.\<close>

definition example_answer :: json where
  "example_answer =
     JObj [(''type'', JStr ''FeatureCollection''),
           (''features'',
            JArr [JObj [(''properties'', JObj [(''formatted'', JStr ''IIT Delhi, New Delhi, India'')])],
                  JObj [(''properties'', JObj [(''formatted'', JStr ''Delhi, India'')])]])]"

text \<open>
  A service that knows one address, finds nothing for a second, answers a third with a
  feature that has no \<open>formatted\<close> text and a fourth with one that has no properties,
  breaks off the connection for a fifth, and sends a list in the place of an object for
  any other. In this environment the file of the processed rows cannot be written.
\<close>

definition example_env :: env where
  "example_env =
     \<lparr>http_get = (\<lambda>url params.
        if map_of params ''text'' = Some ''IIT Delhi, India'' then Inr example_answer
        else if map_of params ''text'' = Some ''Atlantis, Unknown''
          then Inr (JObj [(''features'', JArr [])])
        else if map_of params ''text'' = Some ''Strathmore, Kenya''
          then Inr (JObj [(''features'', JArr [JObj [(''properties'', JObj [])]])])
        else if map_of params ''text'' = Some ''Makerere, Uganda''
          then Inr (JObj [(''features'', JArr [JObj []])])
        else if map_of params ''text'' = Some ''Unknown, Unknown''
          then Inl (RequestException ''Connection refused'')
        else Inr (JArr [])),
      to_excel = (\<lambda>path. if path = autocomplete_file_path then Some ''Permission denied'' else None)\<rparr>"

text \<open>
  A sheet whose first row gets the address that the service does not answer, and the run
  of the script on it in the environment above.
\<close>

definition failing_sheet :: sheet where
  "failing_sheet =
     \<lparr>columns = [''Country Name'', ''Education Institute''],
      rows = [[Text ''Unknown'', Text ''Unknown''],
              [Text ''India'', Text ''IIT Delhi''],
              [Text ''Kenya'', Text ''Strathmore'']]\<rparr>"

definition failing_run :: run where
  "failing_run =
     \<lparr>processed_df =
        \<lparr>columns = [''Country Name'', ''Education Institute'', ''Address Suggestions''],
         rows = [[Sheet (Text ''Unknown''), Sheet (Text ''Unknown''),
                  Api (JStr ''Request error: Connection refused'')]]\<rparr>,
      unprocessed_df =
        \<lparr>columns = [''Country Name'', ''Education Institute''],
         rows = [[Text ''India'', Text ''IIT Delhi''], [Text ''Kenya'', Text ''Strathmore'']]\<rparr>,
      processed_file = None,
      unprocessed_file =
        Some \<lparr>columns = [''Country Name'', ''Education Institute''],
              rows = [[Text ''India'', Text ''IIT Delhi''], [Text ''Kenya'', Text ''Strathmore'']]\<rparr>,
      run_log =
        [(INFO, ''Starting address autocomplete suggestions...''),
         (ERROR, ''Request error for address '' @ quoted ''Unknown, Unknown'' @
                 '': Connection refused''),
         (INFO, ''Processed 1 addresses.''),
         (INFO, ''Saving file with address suggestions to: '' @ autocomplete_file_path),
         (ERROR, ''Error saving Excel file: Permission denied''),
         (INFO, ''Saving unprocessed rows to: '' @ unprocessed_file_path),
         (INFO, ''The unprocessed rows have been saved to '' @ unprocessed_file_path @ ''.'')]\<rparr>"

section \<open>Facts about tables\<close>

lemma index_of_None: "index_of x ys = None \<longleftrightarrow> x \<notin> set ys"
  by (induction ys) auto

lemma index_of_Some_mem: "index_of x ys = Some i \<Longrightarrow> x \<in> set ys"
  using index_of_None [of x ys] by auto

lemma rows_update_eq: "(df :: 'a table)\<lparr>rows := X\<rparr> = \<lparr>columns = columns df, rows = X\<rparr>"
  by (cases df) simp

lemma put_cell_fun:
  "put_cell cols c v = (\<lambda>row. case index_of c cols of None \<Rightarrow> row @ [v] | Some i \<Rightarrow> row[i := v])"
  by (simp add: fun_eq_iff put_cell_def)

lemma copy_cell_fun:
  "copy_cell cols dst src =
     (\<lambda>row. case index_of src cols of None \<Rightarrow> row | Some j \<Rightarrow> put_cell cols dst (row ! j) row)"
  by (simp add: fun_eq_iff copy_cell_def)

lemma index_of_Some_less: "index_of x ys = Some i \<Longrightarrow> i < length ys \<and> ys ! i = x"
  by (induction ys arbitrary: i) (auto split: if_splits)

lemma index_of_mem: "x \<in> set ys \<Longrightarrow> \<exists>i. index_of x ys = Some i"
  by (cases "index_of x ys") (auto simp: index_of_None)

lemma index_of_append: "x \<in> set ys \<Longrightarrow> index_of x (ys @ zs) = index_of x ys"
  by (induction ys) auto

lemma set_add_column: "set (add_column cols c) = insert c (set cols)"
  by (auto simp: add_column_def index_of_None dest: index_of_Some_mem split: option.splits)

lemma map2_same: "map2 f xs (map g xs) = map (\<lambda>x. f x (g x)) xs"
  by (induction xs) auto

lemma setitem_scalar_rows:
  "setitem_scalar df c v =
     \<lparr>columns = add_column (columns df) c, rows = map (put_cell (columns df) c v) (rows df)\<rparr>"
  by (cases "index_of c (columns df)")
     (simp_all add: setitem_scalar_def add_column_def put_cell_fun rows_update_eq)

lemma copy_column:
  assumes "src \<in> set (columns df)"
  shows "and_then (getitem df src) (\<lambda>v. and_then (setitem df dst v) k) =
         k \<lparr>columns = add_column (columns df) dst,
            rows = map (copy_cell (columns df) dst src) (rows df)\<rparr>"
proof -
  obtain j where j: "index_of src (columns df) = Some j"
    using assms index_of_mem by fastforce
  show ?thesis
    by (cases "index_of dst (columns df)")
       (simp_all add: and_then_def getitem_def setitem_def j map2_same add_column_def
          copy_cell_fun put_cell_def rows_update_eq)
qed

lemma key_indices_total:
  "set keys \<subseteq> set cols \<Longrightarrow> \<exists>ixs. key_indices cols keys = Inr ixs"
proof (induction keys)
  case Nil
  then show ?case by simp
next
  case (Cons k ks)
  then obtain ixs where "key_indices cols ks = Inr ixs" by auto
  moreover obtain i where "index_of k cols = Some i"
    using Cons.prems index_of_mem by fastforce
  ultimately show ?case by (simp add: and_then_def)
qed

lemma sort_values_keys:
  assumes "set sort_keys \<subseteq> set (columns df)"
  shows "sort_values sort_keys df = Inr (df\<lparr>rows := sort_key (key_cells (columns df)) (rows df)\<rparr>)"
proof -
  obtain ixs where "key_indices (columns df) sort_keys = Inr ixs"
    using key_indices_total [OF assms] by blast
  then have "key_cells (columns df) = (\<lambda>row. map (\<lambda>i. row ! i) ixs)"
    by (simp add: fun_eq_iff key_cells_def)
  then show ?thesis
    using \<open>key_indices (columns df) sort_keys = Inr ixs\<close>
    by (simp add: sort_values_def and_then_def)
qed


lemma set_derived_columns: "set (derived_columns cols) = set cols \<union> set sort_keys"
  by (auto simp: derived_columns_def sort_keys_def set_add_column)

lemma derived_row_fun:
  "derived_row c0 =
     copy_cell (add_column (add_column (add_column (add_column (add_column c0 ''continent'')
          ''country'') ''region'') ''state'') ''education institution'')
        ''field of study'' ''Field of Study'' \<circ>
     copy_cell (add_column (add_column (add_column (add_column c0 ''continent'')
          ''country'') ''region'') ''state'') ''education institution'' ''Education Institute'' \<circ>
     put_cell (add_column (add_column (add_column c0 ''continent'') ''country'') ''region'')
        ''state'' (Text ''Unknown'') \<circ>
     copy_cell (add_column (add_column c0 ''continent'') ''country'') ''region'' ''Region'' \<circ>
     copy_cell (add_column c0 ''continent'') ''country'' ''Country Name'' \<circ>
     put_cell c0 ''continent'' (Text ''Unknown'') \<circ>
     map (fill_cell (Text ''Unknown''))"
  by (simp add: fun_eq_iff derived_row_def Let_def)

lemma clean_steps_rows:
  assumes "set source_columns \<subseteq> set (columns df)"
  shows "clean_steps df =
         Inr \<lparr>columns = derived_columns (columns df),
              rows = sort_key (key_cells (derived_columns (columns df)))
                       (map (derived_row (columns df))
                          (filter (\<lambda>row. \<not> contains_Total row) (rows df)))\<rparr>"
proof -
  have src: "''Country Name'' \<in> set (columns df)" "''Region'' \<in> set (columns df)"
    "''Education Institute'' \<in> set (columns df)" "''Field of Study'' \<in> set (columns df)"
    using assms by (simp_all add: source_columns_def)
  have keys: "set sort_keys \<subseteq> set (derived_columns (columns df))"
    by (simp add: set_derived_columns)
  have cols: "derived_columns (columns df) =
      add_column (add_column (add_column (add_column (add_column (add_column (columns df)
        ''continent'') ''country'') ''region'') ''state'') ''education institution'')
        ''field of study''"
    by (simp add: derived_columns_def sort_keys_def)
  have "clean_steps df = sort_values sort_keys
          \<lparr>columns = derived_columns (columns df),
           rows = map (derived_row (columns df))
                    (filter (\<lambda>row. \<not> contains_Total row) (rows df))\<rparr>"
    unfolding clean_steps_def Let_def cols derived_row_fun
    by (simp add: select_rows_def fillna_def rows_update_eq setitem_scalar_rows copy_column
          set_add_column src o_def)
  then show ?thesis
    using keys by (simp add: sort_values_keys rows_update_eq)
qed

lemma set_keep_first: "set (keep_first seen xs) = set xs - set seen"
  by (induction xs arbitrary: seen) auto

lemma distinct_keep_first: "distinct (keep_first seen xs)"
  by (induction xs arbitrary: seen) (auto simp: set_keep_first)



lemma startswith_subset: "startswith s pat \<Longrightarrow> set pat \<subseteq> set s"
  by (induction s pat rule: startswith.induct) auto

lemma str_contains_subset: "str_contains s pat \<Longrightarrow> set pat \<subseteq> set s"
proof (induction s)
  case Nil
  then show ?case by simp
next
  case (Cons c s)
  then consider "startswith (c # s) pat" | "str_contains s pat" by auto
  then show ?case
  proof cases
    case 1
    then show ?thesis by (rule startswith_subset)
  next
    case 2
    then show ?thesis using Cons.IH by auto
  qed
qed

lemma digit_char_not_T: "d < 10 \<Longrightarrow> digit_char d \<noteq> CHR ''T''"
proof
  assume d: "d < 10" and eq: "digit_char d = CHR ''T''"
  have "of_char (digit_char d) = (48 + d :: nat)"
    using d by (simp add: digit_char_def)
  then show False using d eq by simp
qed

lemma str_nat_not_T: "CHR ''T'' \<notin> set (str_nat n)"
proof (induction n rule: str_nat.induct)
  case (1 n)
  show ?case
  proof (cases "n < 10")
    case True
    then show ?thesis using digit_char_not_T [of n] by (subst str_nat.simps) auto
  next
    case False
    moreover have "digit_char (n mod 10) \<noteq> CHR ''T''" by (rule digit_char_not_T) simp
    ultimately show ?thesis using 1 by (subst str_nat.simps) auto
  qed
qed

lemma str_int_not_T: "CHR ''T'' \<notin> set (str_int i)"
  by (simp add: str_int_def str_nat_not_T)

lemma fill_cell_Total:
  "str_contains (astype_str (fill_cell (Text ''Unknown'') c)) ''Total'' =
   str_contains (astype_str c) ''Total''"
  by (cases c) simp_all

lemma index_of_append_new: "c \<notin> set cols \<Longrightarrow> index_of c (cols @ [c]) = Some (length cols)"
  by (induction cols) auto

lemma index_of_append_other:
  "c' \<noteq> c \<Longrightarrow> index_of c' (cols @ [c]) = index_of c' cols"
  by (induction cols) auto

lemma cell_at_fill: "cell_at cols (map f row) c = map_option f (cell_at cols row c)"
  by (simp add: cell_at_def split: option.splits)

lemma length_put_cell:
  "length row = length cols \<Longrightarrow> length (put_cell cols c v row) = length (add_column cols c)"
  by (simp add: put_cell_def add_column_def split: option.splits)

lemma cell_at_put_cell:
  assumes "length row = length cols"
  shows "cell_at (add_column cols c) (put_cell cols c v row) = (cell_at cols row)(c \<mapsto> v)"
proof (rule ext)
  fix c'
  show "cell_at (add_column cols c) (put_cell cols c v row) c' = ((cell_at cols row)(c \<mapsto> v)) c'"
  proof (cases "index_of c cols")
    case None
    then have new: "c \<notin> set cols" by (simp add: index_of_None)
    show ?thesis
    proof (cases "c' = c")
      case True
      then show ?thesis
        using None new assms
        by (simp add: cell_at_def add_column_def put_cell_def index_of_append_new nth_append)
    next
      case False
      then show ?thesis
        using None assms
        by (auto simp: cell_at_def add_column_def put_cell_def index_of_append_other nth_append
              dest: index_of_Some_less split: option.splits)
    qed
  next
    case (Some i)
    then have i: "i < length cols" "cols ! i = c" by (auto dest: index_of_Some_less)
    show ?thesis
    proof (cases "c' = c")
      case True
      then show ?thesis
        using Some i assms by (simp add: cell_at_def add_column_def put_cell_def)
    next
      case False
      show ?thesis
      proof (cases "c' \<in> set cols")
        case False
        then have "index_of c' cols = None" by (simp add: index_of_None)
        then show ?thesis
          using Some \<open>c' \<noteq> c\<close> by (simp add: cell_at_def add_column_def put_cell_def)
      next
        case True
        then obtain i' where i': "index_of c' cols = Some i'"
          using index_of_mem by fastforce
        then have "cols ! i' = c'" by (auto dest: index_of_Some_less)
        then have "i' \<noteq> i" using i \<open>c' \<noteq> c\<close> by auto
        then show ?thesis
          using Some i' \<open>c' \<noteq> c\<close> by (simp add: cell_at_def add_column_def put_cell_def)
      qed
    qed
  qed
qed

lemma set_put_cell: "set (put_cell cols c v row) \<subseteq> insert v (set row)"
  using set_update_subset_insert [of row _ v]
  by (auto simp: put_cell_def split: option.splits)

lemma copy_cell_put:
  assumes "length row = length cols" and "src \<in> set cols"
  shows "\<exists>v. cell_at cols row src = Some v \<and> v \<in> set row \<and>
             copy_cell cols dst src row = put_cell cols dst v row"
proof -
  obtain j where j: "index_of src cols = Some j"
    using assms(2) index_of_mem by fastforce
  then have "j < length row" using assms(1) by (auto dest: index_of_Some_less)
  then show ?thesis using j by (simp add: cell_at_def copy_cell_def)
qed

lemma length_copy_cell:
  "length row = length cols \<Longrightarrow> src \<in> set cols \<Longrightarrow>
   length (copy_cell cols dst src row) = length (add_column cols dst)"
  using copy_cell_put [of row cols src dst] by (auto simp: length_put_cell)

lemma cell_at_copy_cell:
  "length row = length cols \<Longrightarrow> src \<in> set cols \<Longrightarrow>
   cell_at (add_column cols dst) (copy_cell cols dst src row) =
   (cell_at cols row)(dst := cell_at cols row src)"
  using copy_cell_put [of row cols src dst] by (auto simp: cell_at_put_cell)

lemma set_copy_cell:
  "length row = length cols \<Longrightarrow> src \<in> set cols \<Longrightarrow> set (copy_cell cols dst src row) \<subseteq> set row"
proof -
  assume "length row = length cols" "src \<in> set cols"
  then obtain v where v: "v \<in> set row" "copy_cell cols dst src row = put_cell cols dst v row"
    using copy_cell_put [of row cols src dst] by blast
  have "set (put_cell cols dst v row) \<subseteq> insert v (set row)" by (rule set_put_cell)
  then show ?thesis using v by auto
qed

lemma derived_row_facts:
  assumes len: "length row = length cols" and src: "set source_columns \<subseteq> set cols"
  shows "length (derived_row cols row) = length (derived_columns cols)"
    and "cell_at (derived_columns cols) (derived_row cols row) =
         (let m = (\<lambda>c. map_option (fill_cell (Text ''Unknown'')) (cell_at cols row c))
          in m(''continent'' \<mapsto> Text ''Unknown'',
               ''country'' := m ''Country Name'',
               ''region'' := m ''Region'',
               ''state'' \<mapsto> Text ''Unknown'',
               ''education institution'' := m ''Education Institute'',
               ''field of study'' := m ''Field of Study''))"
    and "set (derived_row cols row) \<subseteq>
         insert (Text ''Unknown'') (fill_cell (Text ''Unknown'') ` set row)"
proof -
  have mem: "''Country Name'' \<in> set cols" "''Region'' \<in> set cols"
    "''Education Institute'' \<in> set cols" "''Field of Study'' \<in> set cols"
    using src by (simp_all add: source_columns_def)
  define r0 where "r0 = map (fill_cell (Text ''Unknown'')) row"
  define r1 where "r1 = put_cell cols ''continent'' (Text ''Unknown'') r0"
  define c1 where "c1 = add_column cols ''continent''"
  define r2 where "r2 = copy_cell c1 ''country'' ''Country Name'' r1"
  define c2 where "c2 = add_column c1 ''country''"
  define r3 where "r3 = copy_cell c2 ''region'' ''Region'' r2"
  define c3 where "c3 = add_column c2 ''region''"
  define r4 where "r4 = put_cell c3 ''state'' (Text ''Unknown'') r3"
  define c4 where "c4 = add_column c3 ''state''"
  define r5 where "r5 = copy_cell c4 ''education institution'' ''Education Institute'' r4"
  define c5 where "c5 = add_column c4 ''education institution''"
  define r6 where "r6 = copy_cell c5 ''field of study'' ''Field of Study'' r5"
  define c6 where "c6 = add_column c5 ''field of study''"
  have R: "derived_row cols row = r6"
    by (simp add: derived_row_def Let_def r0_def r1_def c1_def r2_def c2_def r3_def c3_def
          r4_def c4_def r5_def c5_def r6_def)
  have C: "derived_columns cols = c6"
    by (simp add: derived_columns_def sort_keys_def c1_def c2_def c3_def c4_def c5_def c6_def)
  have m1: "''Country Name'' \<in> set c1" by (simp add: c1_def set_add_column mem)
  have m2: "''Region'' \<in> set c2" by (simp add: c2_def c1_def set_add_column mem)
  have m4: "''Education Institute'' \<in> set c4"
    by (simp add: c4_def c3_def c2_def c1_def set_add_column mem)
  have m5: "''Field of Study'' \<in> set c5"
    by (simp add: c5_def c4_def c3_def c2_def c1_def set_add_column mem)
  have l0: "length r0 = length cols" by (simp add: r0_def len)
  have l1: "length r1 = length c1" unfolding r1_def c1_def by (rule length_put_cell [OF l0])
  have l2: "length r2 = length c2" unfolding r2_def c2_def by (rule length_copy_cell [OF l1 m1])
  have l3: "length r3 = length c3" unfolding r3_def c3_def by (rule length_copy_cell [OF l2 m2])
  have l4: "length r4 = length c4" unfolding r4_def c4_def by (rule length_put_cell [OF l3])
  have l5: "length r5 = length c5" unfolding r5_def c5_def by (rule length_copy_cell [OF l4 m4])
  have l6: "length r6 = length c6" unfolding r6_def c6_def by (rule length_copy_cell [OF l5 m5])
  show "length (derived_row cols row) = length (derived_columns cols)"
    by (simp add: R C l6)
  have a0: "cell_at cols r0 = (\<lambda>c. map_option (fill_cell (Text ''Unknown'')) (cell_at cols row c))"
    by (simp add: r0_def cell_at_fill fun_eq_iff)
  have a1: "cell_at c1 r1 = (cell_at cols r0)(''continent'' \<mapsto> Text ''Unknown'')"
    unfolding r1_def c1_def by (rule cell_at_put_cell [OF l0])
  have a2: "cell_at c2 r2 = (cell_at c1 r1)(''country'' := cell_at c1 r1 ''Country Name'')"
    unfolding r2_def c2_def by (rule cell_at_copy_cell [OF l1 m1])
  have a3: "cell_at c3 r3 = (cell_at c2 r2)(''region'' := cell_at c2 r2 ''Region'')"
    unfolding r3_def c3_def by (rule cell_at_copy_cell [OF l2 m2])
  have a4: "cell_at c4 r4 = (cell_at c3 r3)(''state'' \<mapsto> Text ''Unknown'')"
    unfolding r4_def c4_def by (rule cell_at_put_cell [OF l3])
  have a5: "cell_at c5 r5 =
      (cell_at c4 r4)(''education institution'' := cell_at c4 r4 ''Education Institute'')"
    unfolding r5_def c5_def by (rule cell_at_copy_cell [OF l4 m4])
  have a6: "cell_at c6 r6 = (cell_at c5 r5)(''field of study'' := cell_at c5 r5 ''Field of Study'')"
    unfolding r6_def c6_def by (rule cell_at_copy_cell [OF l5 m5])
  show "cell_at (derived_columns cols) (derived_row cols row) =
         (let m = (\<lambda>c. map_option (fill_cell (Text ''Unknown'')) (cell_at cols row c))
          in m(''continent'' \<mapsto> Text ''Unknown'',
               ''country'' := m ''Country Name'',
               ''region'' := m ''Region'',
               ''state'' \<mapsto> Text ''Unknown'',
               ''education institution'' := m ''Education Institute'',
               ''field of study'' := m ''Field of Study''))"
    unfolding R C a6 a5 a4 a3 a2 a1 a0 Let_def by simp
  have s0: "set r0 = fill_cell (Text ''Unknown'') ` set row" by (simp add: r0_def)
  have s1: "set r1 \<subseteq> insert (Text ''Unknown'') (set r0)"
    unfolding r1_def by (rule set_put_cell)
  have s2: "set r2 \<subseteq> set r1" unfolding r2_def by (rule set_copy_cell [OF l1 m1])
  have s3: "set r3 \<subseteq> set r2" unfolding r3_def by (rule set_copy_cell [OF l2 m2])
  have s4: "set r4 \<subseteq> insert (Text ''Unknown'') (set r3)"
    unfolding r4_def by (rule set_put_cell)
  have s5: "set r5 \<subseteq> set r4" unfolding r5_def by (rule set_copy_cell [OF l4 m4])
  have s6: "set r6 \<subseteq> set r5" unfolding r6_def by (rule set_copy_cell [OF l5 m5])
  show "set (derived_row cols row) \<subseteq>
         insert (Text ''Unknown'') (fill_cell (Text ''Unknown'') ` set row)"
    unfolding R using s0 s1 s2 s3 s4 s5 s6 by blast
qed

lemma derived_row_no_Total:
  assumes "length row = length cols" and "set source_columns \<subseteq> set cols"
    and "\<not> contains_Total row"
  shows "\<not> contains_Total (derived_row cols row)"
proof
  assume "contains_Total (derived_row cols row)"
  then obtain c where c: "c \<in> set (derived_row cols row)" "str_contains (astype_str c) ''Total''"
    by (auto simp: contains_Total_def list_ex_iff)
  then have "c = Text ''Unknown'' \<or> c \<in> fill_cell (Text ''Unknown'') ` set row"
    using derived_row_facts(3) [OF assms(1,2)] by auto
  then show False
  proof
    assume "c = Text ''Unknown''"
    then show False using c(2) by simp
  next
    assume "c \<in> fill_cell (Text ''Unknown'') ` set row"
    then obtain d where "d \<in> set row" "c = fill_cell (Text ''Unknown'') d" by auto
    then have "contains_Total row"
      using c(2) by (auto simp: contains_Total_def list_ex_iff fill_cell_Total)
    then show False using assms(3) by simp
  qed
qed

lemma getitem_missing:
  "c \<notin> set (columns df) \<Longrightarrow> and_then (getitem df c) k = Inl (KeyError c)"
  by (simp add: getitem_def and_then_def index_of_None [THEN iffD2])

lemma clean_steps_missing:
  assumes "\<not> set source_columns \<subseteq> set (columns df)"
  shows "\<exists>e. clean_steps df = Inl e"
proof -
  consider "''Country Name'' \<notin> set (columns df)"
    | "''Country Name'' \<in> set (columns df)" "''Region'' \<notin> set (columns df)"
    | "''Country Name'' \<in> set (columns df)" "''Region'' \<in> set (columns df)"
      "''Education Institute'' \<notin> set (columns df)"
    | "''Country Name'' \<in> set (columns df)" "''Region'' \<in> set (columns df)"
      "''Education Institute'' \<in> set (columns df)" "''Field of Study'' \<notin> set (columns df)"
    using assms by (auto simp: source_columns_def)
  then show ?thesis
    by cases
      (simp_all add: clean_steps_def Let_def select_rows_def fillna_def rows_update_eq
         setitem_scalar_rows copy_column getitem_missing set_add_column)
qed

lemma cleaner_result:
  assumes "snd (clean_sort_create_columns df) = Inr out"
  shows "set source_columns \<subseteq> set (columns df)"
    and "columns out = derived_columns (columns df)"
    and "rows out = sort_key (key_cells (derived_columns (columns df)))
                      (map (derived_row (columns df)) (surviving_rows df))"
proof -
  have steps: "clean_steps (drop_duplicates df) = Inr out"
    using assms by (simp add: clean_sort_create_columns_def Let_def)
  have cols: "columns (drop_duplicates df) = columns df"
    by (simp add: drop_duplicates_def)
  show src: "set source_columns \<subseteq> set (columns df)"
    using steps clean_steps_missing [of "drop_duplicates df"] cols by auto
  then have "clean_steps (drop_duplicates df) =
      Inr \<lparr>columns = derived_columns (columns df),
           rows = sort_key (key_cells (derived_columns (columns df)))
                    (map (derived_row (columns df)) (surviving_rows df))\<rparr>"
    using clean_steps_rows [of "drop_duplicates df"]
    by (simp add: cols surviving_rows_def drop_duplicates_def)
  with steps show "columns out = derived_columns (columns df)"
    and "rows out = sort_key (key_cells (derived_columns (columns df)))
                      (map (derived_row (columns df)) (surviving_rows df))"
    by auto
qed

lemma set_surviving_rows:
  "set (surviving_rows df) = {row \<in> set (rows df). \<not> contains_Total row}"
  by (auto simp: surviving_rows_def set_keep_first)

lemma wf_table_row: "wf_table df \<Longrightarrow> row \<in> set (rows df) \<Longrightarrow> length row = length (columns df)"
  by (simp add: wf_table_def list_all_iff)

lemma text_less: "Text s < Text t \<longleftrightarrow> s < t"
  by (auto simp: less_cell_def)

lemma text_keys_le:
  assumes "\<forall>c \<in> set xs. \<exists>s. c = Text s" and "\<forall>c \<in> set ys. \<exists>s. c = Text s" and "xs \<le> ys"
  shows "map astype_str xs \<le> map astype_str ys"
  using assms
proof (induction xs arbitrary: ys)
  case Nil
  then show ?case by simp
next
  case (Cons x xs)
  then obtain y ys' where ys: "ys = y # ys'" by (cases ys) auto
  obtain s t where st: "x = Text s" "y = Text t" using Cons.prems ys by auto
  have "s < t \<or> s = t \<and> xs \<le> ys'"
    using Cons.prems(3) by (simp add: ys st text_less)
  then show ?case
  proof
    assume "s < t"
    then show ?thesis by (simp add: ys st)
  next
    assume "s = t \<and> xs \<le> ys'"
    then show ?thesis using Cons.IH [of ys'] Cons.prems by (simp add: ys st)
  qed
qed

lemma sorted_map_mono:
  assumes "sorted (map f xs)" and "\<And>x y. x \<in> set xs \<Longrightarrow> y \<in> set xs \<Longrightarrow> f x \<le> f y \<Longrightarrow> g x \<le> g y"
  shows "sorted (map g xs)"
  using assms by (induction xs) auto

lemma mset_surviving_rows:
  "mset (surviving_rows df) = mset_set {row \<in> set (rows df). \<not> contains_Total row}"
proof -
  have "distinct (surviving_rows df)"
    by (simp add: surviving_rows_def distinct_keep_first)
  then show ?thesis
    using mset_set_set [of "surviving_rows df"] by (simp add: set_surviving_rows)
qed

lemma cell_at_present:
  "c \<in> set cols \<Longrightarrow> length row = length cols \<Longrightarrow> \<exists>v. cell_at cols row c = Some v"
  using index_of_mem [of c cols] by (auto simp: cell_at_def dest: index_of_Some_less)

lemma add_column_new: "c \<notin> set cols \<Longrightarrow> add_column cols c = cols @ [c]"
  by (simp add: add_column_def index_of_None [THEN iffD2])

lemma derived_columns_new:
  assumes "set sort_keys \<inter> set cols = {}"
  shows "derived_columns cols = cols @ sort_keys"
proof -
  have "''continent'' \<notin> set cols" "''country'' \<notin> set cols" "''region'' \<notin> set cols"
    "''state'' \<notin> set cols" "''education institution'' \<notin> set cols"
    "''field of study'' \<notin> set cols"
    using assms by (auto simp: sort_keys_def)
  then show ?thesis
    by (simp add: derived_columns_def sort_keys_def add_column_new)
qed

section \<open>The examples, run\<close>

lemma example_sheet_wf: "wf_table example_sheet"
  by (simp add: wf_table_def example_sheet_def)

lemma example_sheet_cleaned:
  "snd (clean_sort_create_columns example_sheet) = Inr example_cleaned"
  by code_simp

lemma failing_run_test: "annotate example_env failing_sheet = Inr failing_run"
  by code_simp

section \<open>Facts about the Annotator\<close>

lemma annotate_rows_skipped:
  "\<forall>(index, row) \<in> set xs. 1 \<le> index \<Longrightarrow>
   annotate_rows e cols xs st =
     Inr (st\<lparr>unprocessed_rows := unprocessed_rows st @ map snd xs\<rparr>)"
  by (induction xs arbitrary: st) auto

lemma iterrows_Cons:
  "rows df = r0 # rest \<Longrightarrow> iterrows df = (0, r0) # zip [Suc 0 ..< Suc (length rest)] rest"
  by (simp add: iterrows_def upt_conv_Cons del: upt_Suc)

lemma zip_indices_positive: "\<forall>(index, row) \<in> set (zip [Suc 0 ..< n] rest). 1 \<le> index"
  by (auto dest: set_zip_leftD)

lemma map_snd_zip_upt: "map snd (zip [Suc 0 ..< Suc (length rest)] rest) = rest"
  by (simp del: upt_Suc)

lemma setitem_single:
  "setitem \<lparr>columns = cols, rows = [row]\<rparr> c [v] =
     Inr \<lparr>columns = add_column cols c, rows = [put_cell cols c v row]\<rparr>"
  by (simp add: setitem_def add_column_def put_cell_def split: option.splits)

lemma annotate_first_row:
  assumes rws: "rows df = r0 # rest"
    and a: "cell_at (columns df) r0 ''Education Institute'' = Some a"
    and b: "cell_at (columns df) r0 ''Country Name'' = Some b"
  shows "annotate e df =
     (let s = get_address_suggestions e (address_of a b);
          P = \<lparr>columns = add_column (columns df) ''Address Suggestions'',
               rows = [put_cell (columns df) ''Address Suggestions'' (Api (fst s)) (map Sheet r0)]\<rparr>;
          U = DataFrame (columns df) rest;
          s1 = save_excel e autocomplete_file_path P
                 ''The new file with address suggestions has been saved to ''
                 ''Error saving Excel file: '';
          s2 = save_excel e unprocessed_file_path U
                 ''The unprocessed rows have been saved to ''
                 ''Error saving unprocessed rows: ''
      in Inr \<lparr>processed_df = P, unprocessed_df = U,
              processed_file = fst s1, unprocessed_file = fst s2,
              run_log = [(INFO, ''Starting address autocomplete suggestions...'')] @ snd s @
                [(INFO, ''Processed '' @ str_int 1 @ '' addresses.''),
                 (INFO, ''Saving file with address suggestions to: '' @ autocomplete_file_path)] @
                snd s1 @
                [(INFO, ''Saving unprocessed rows to: '' @ unprocessed_file_path)] @ snd s2\<rparr>)"
proof -
  have loop: "annotate_rows e (columns df) (iterrows df)
           \<lparr>suggestions = [], unprocessed_rows = [],
            logged = [(INFO, ''Starting address autocomplete suggestions...'')]\<rparr> =
        Inr \<lparr>suggestions = [fst (get_address_suggestions e (address_of a b))],
             unprocessed_rows = rest,
             logged = [(INFO, ''Starting address autocomplete suggestions...'')] @
               snd (get_address_suggestions e (address_of a b)) @
               [(INFO, ''Processed '' @ str_int 1 @ '' addresses.'')]\<rparr>"
    by (simp add: iterrows_Cons [OF rws] row_getitem_def a b and_then_def
          annotate_rows_skipped [OF zip_indices_positive] map_snd_zip_upt
          del: upt_Suc split: prod.splits)
  have head: "map_cells Sheet (iloc_head 1 df) = \<lparr>columns = columns df, rows = [map Sheet r0]\<rparr>"
    by (simp add: map_cells_def iloc_head_def rws)
  show ?thesis
    unfolding annotate_def loop head
    by (simp add: and_then_def setitem_single Let_def split: prod.splits)
qed

lemma annotate_needs_cells:
  assumes "rows df = r0 # rest" and "annotate e df = Inr r"
  shows "\<exists>a b. cell_at (columns df) r0 ''Education Institute'' = Some a \<and>
               cell_at (columns df) r0 ''Country Name'' = Some b"
proof (rule ccontr)
  assume "\<not> ?thesis"
  then have "annotate_rows e (columns df) (iterrows df)
           \<lparr>suggestions = [], unprocessed_rows = [],
            logged = [(INFO, ''Starting address autocomplete suggestions...'')]\<rparr> =
        Inl (KeyError ''Education Institute'') \<or>
      annotate_rows e (columns df) (iterrows df)
           \<lparr>suggestions = [], unprocessed_rows = [],
            logged = [(INFO, ''Starting address autocomplete suggestions...'')]\<rparr> =
        Inl (KeyError ''Country Name'')"
    by (auto simp: iterrows_Cons [OF assms(1)] row_getitem_def and_then_def
          simp del: upt_Suc split: option.splits)
  then show False
    using assms(2) by (auto simp: annotate_def and_then_def)
qed

lemma get_address_suggestions_to_excel:
  "get_address_suggestions (e\<lparr>to_excel := f\<rparr>) address = get_address_suggestions e address"
  by (simp add: get_address_suggestions_def request_suggestion_def request_def)

lemma annotate_rows_to_excel:
  "annotate_rows (e\<lparr>to_excel := f\<rparr>) cols xs st = annotate_rows e cols xs st"
proof (induction xs arbitrary: st)
  case Nil
  then show ?case by simp
next
  case (Cons x xs)
  obtain index row where x: "x = (index, row)" by (cases x)
  show ?case
    by (simp add: x Cons.IH get_address_suggestions_to_excel and_then_def
          split: sum.splits prod.splits)
qed

lemma annotate_saves:
  assumes "annotate e df = Inr r"
  shows "processed_file r =
           fst (save_excel e autocomplete_file_path (processed_df r)
                  ''The new file with address suggestions has been saved to ''
                  ''Error saving Excel file: '')"
    and "unprocessed_file r =
           fst (save_excel e unprocessed_file_path (unprocessed_df r)
                  ''The unprocessed rows have been saved to ''
                  ''Error saving unprocessed rows: '')"
    and "\<exists>before. run_log r =
           before @
           snd (save_excel e autocomplete_file_path (processed_df r)
                  ''The new file with address suggestions has been saved to ''
                  ''Error saving Excel file: '') @
           [(INFO, ''Saving unprocessed rows to: '' @ unprocessed_file_path)] @
           snd (save_excel e unprocessed_file_path (unprocessed_df r)
                  ''The unprocessed rows have been saved to ''
                  ''Error saving unprocessed rows: '')"
  using assms
  by (auto simp: annotate_def and_then_def Let_def split: sum.splits prod.splits)

lemma annotate_frames:
  assumes "annotate e df = Inr r"
  shows "\<exists>r'. annotate (e\<lparr>to_excel := f\<rparr>) df = Inr r' \<and>
              processed_df r' = processed_df r \<and> unprocessed_df r' = unprocessed_df r"
  using assms
  by (auto simp: annotate_def and_then_def Let_def annotate_rows_to_excel
        split: sum.splits prod.splits)

section \<open>The Annotator's properties\<close>

text \<open>
  Claim C1. When the Annotator runs to its end on a sheet with \<open>N \<ge> 1\<close> rows, the
  processed frame has exactly one row and the unprocessed frame exactly \<open>N - 1\<close>. The
  unprocessed rows are the rows after the first, as they were and in their order, under
  the columns of the sheet. The processed row is the first row of the sheet in every
  column other than \<open>Address Suggestions\<close>; where that column is a new one, the processed
  row without its last cell, followed by the unprocessed rows, is the list of the rows
  of the sheet.
\<close>

theorem first_row_processed:
  assumes "wf_table df" and "rows df \<noteq> []" and "annotate e df = Inr r"
  shows "length (rows (processed_df r)) = 1 \<and>
         length (rows (unprocessed_df r)) = length (rows df) - 1 \<and>
         rows (unprocessed_df r) = tl (rows df) \<and>
         (tl (rows df) \<noteq> [] \<longrightarrow> columns (unprocessed_df r) = columns df) \<and>
         (\<forall>c. c \<noteq> ''Address Suggestions'' \<longrightarrow>
              cell_at (columns (processed_df r)) (hd (rows (processed_df r))) c =
              map_option Sheet (cell_at (columns df) (hd (rows df)) c)) \<and>
         (''Address Suggestions'' \<notin> set (columns df) \<longrightarrow>
            map butlast (rows (processed_df r)) @ map (map Sheet) (rows (unprocessed_df r)) =
            map (map Sheet) (rows df))"
proof -
  obtain r0 rest where rws: "rows df = r0 # rest"
    using assms(2) by (cases "rows df") auto
  obtain a b where ab: "cell_at (columns df) r0 ''Education Institute'' = Some a"
    "cell_at (columns df) r0 ''Country Name'' = Some b"
    using annotate_needs_cells [OF rws assms(3)] by blast
  define s where "s = fst (get_address_suggestions e (address_of a b))"
  have P: "processed_df r =
      \<lparr>columns = add_column (columns df) ''Address Suggestions'',
       rows = [put_cell (columns df) ''Address Suggestions'' (Api s) (map Sheet r0)]\<rparr>"
    and U: "unprocessed_df r = DataFrame (columns df) rest"
    using assms(3) unfolding annotate_first_row [OF rws ab] s_def
    by (auto simp: Let_def)
  have len: "length (map Sheet r0) = length (columns df)"
    using assms(1) rws by (simp add: wf_table_def)
  have U_rows: "rows (unprocessed_df r) = rest"
    by (simp add: U DataFrame_def)
  have U_cols: "tl (rows df) \<noteq> [] \<longrightarrow> columns (unprocessed_df r) = columns df"
    by (simp add: U DataFrame_def rws)
  have cells: "cell_at (columns (processed_df r)) (hd (rows (processed_df r))) c =
      map_option Sheet (cell_at (columns df) (hd (rows df)) c)"
    if "c \<noteq> ''Address Suggestions''" for c
    using that by (simp add: P rws cell_at_put_cell [OF len] cell_at_fill)
  have new: "map butlast (rows (processed_df r)) @ map (map Sheet) (rows (unprocessed_df r)) =
      map (map Sheet) (rows df)"
    if "''Address Suggestions'' \<notin> set (columns df)"
    using that by (simp add: P U_rows rws put_cell_def index_of_None [THEN iffD2])
  show ?thesis
    using cells new U_cols by (simp add: P U_rows rws)
qed

theorem first_row_processed_witness:
  "wf_table failing_sheet \<and> rows failing_sheet \<noteq> [] \<and>
   annotate example_env failing_sheet = Inr failing_run \<and>
   length (rows (processed_df failing_run)) = 1 \<and>
   length (rows (unprocessed_df failing_run)) = length (rows failing_sheet) - 1 \<and>
   rows (unprocessed_df failing_run) = tl (rows failing_sheet) \<and>
   columns (unprocessed_df failing_run) = columns failing_sheet \<and>
   cell_at (columns (processed_df failing_run)) (hd (rows (processed_df failing_run)))
     ''Country Name'' =
     map_option Sheet (cell_at (columns failing_sheet) (hd (rows failing_sheet)) ''Country Name'') \<and>
   ''Address Suggestions'' \<notin> set (columns failing_sheet) \<and>
   map butlast (rows (processed_df failing_run)) @
     map (map Sheet) (rows (unprocessed_df failing_run)) =
   map (map Sheet) (rows failing_sheet)"
proof -
  have wf: "wf_table failing_sheet"
    by (simp add: failing_sheet_def wf_table_def)
  have rws: "rows failing_sheet \<noteq> []"
    by (simp add: failing_sheet_def)
  note run = failing_run_test
  have new: "''Address Suggestions'' \<notin> set (columns failing_sheet)"
    by (simp add: failing_sheet_def)
  have more: "tl (rows failing_sheet) \<noteq> []"
    by (simp add: failing_sheet_def)
  have other: "''Country Name'' \<noteq> ''Address Suggestions''"
    by simp
  note facts = first_row_processed [OF wf rws run]
  have cells: "cell_at (columns (processed_df failing_run)) (hd (rows (processed_df failing_run))) c =
      map_option Sheet (cell_at (columns failing_sheet) (hd (rows failing_sheet)) c)"
    if "c \<noteq> ''Address Suggestions''" for c
    using facts that by blast
  show ?thesis
    using facts cells [OF other] wf rws run new more by blast
qed

text \<open>
  Claim C2. For one lookup: when the answer has a non-empty \<open>features\<close> array whose
  first element has a \<open>properties\<close> object with a \<open>formatted\<close> value, that value is
  returned; when the array is empty, the text \<open>No suggestion\<close> is returned; when the
  request raises a \<open>RequestException\<close>, the text \<open>Request error: \<close> followed by the text
  of the exception; when anything else is raised in the \<open>try\<close> block, the text
  \<open>Error: \<close> followed by the text of the exception. Whatever the lookup returns, the
  script goes on: on a sheet whose first row has both columns of the address, the run
  ends with the returned value in the column \<open>Address Suggestions\<close> of the processed
  row and with the other rows in the unprocessed frame.
\<close>

theorem suggestion_of_answer:
  "(request e address = Inr (JObj body) \<and>
      map_of body ''features'' = Some (JArr (JObj first # others)) \<and>
      map_of first ''properties'' = Some (JObj properties) \<and>
      map_of properties ''formatted'' = Some formatted
    \<longrightarrow> fst (get_address_suggestions e address) = formatted) \<and>
   (request e address = Inr (JObj body) \<and> map_of body ''features'' = Some (JArr [])
    \<longrightarrow> fst (get_address_suggestions e address) = JStr ''No suggestion'') \<and>
   (request e address = Inl (RequestException m)
    \<longrightarrow> fst (get_address_suggestions e address) = JStr (''Request error: '' @ m)) \<and>
   (request_suggestion e address = Inl (Exception m)
    \<longrightarrow> fst (get_address_suggestions e address) = JStr (''Error: '' @ m)) \<and>
   (wf_table df \<and> rows df \<noteq> [] \<and>
      cell_at (columns df) (hd (rows df)) ''Education Institute'' = Some institute \<and>
      cell_at (columns df) (hd (rows df)) ''Country Name'' = Some country
    \<longrightarrow> (\<exists>r. annotate e df = Inr r \<and>
             cell_at (columns (processed_df r)) (hd (rows (processed_df r))) ''Address Suggestions''
               = Some (Api (fst (get_address_suggestions e (address_of institute country)))) \<and>
             rows (unprocessed_df r) = tl (rows df)))"
proof (intro conjI impI)
  assume "request e address = Inr (JObj body) \<and>
      map_of body ''features'' = Some (JArr (JObj first # others)) \<and>
      map_of first ''properties'' = Some (JObj properties) \<and>
      map_of properties ''formatted'' = Some formatted"
  then show "fst (get_address_suggestions e address) = formatted"
    by (simp add: get_address_suggestions_def request_suggestion_def and_then_def)
next
  assume "request e address = Inr (JObj body) \<and> map_of body ''features'' = Some (JArr [])"
  then show "fst (get_address_suggestions e address) = JStr ''No suggestion''"
    by (simp add: get_address_suggestions_def request_suggestion_def and_then_def)
next
  assume "request e address = Inl (RequestException m)"
  then show "fst (get_address_suggestions e address) = JStr (''Request error: '' @ m)"
    by (simp add: get_address_suggestions_def request_suggestion_def and_then_def)
next
  assume "request_suggestion e address = Inl (Exception m)"
  then show "fst (get_address_suggestions e address) = JStr (''Error: '' @ m)"
    by (simp add: get_address_suggestions_def)
next
  assume h: "wf_table df \<and> rows df \<noteq> [] \<and>
      cell_at (columns df) (hd (rows df)) ''Education Institute'' = Some institute \<and>
      cell_at (columns df) (hd (rows df)) ''Country Name'' = Some country"
  then obtain r0 rest where rws: "rows df = r0 # rest" by (cases "rows df") auto
  have len: "length (map Sheet r0) = length (columns df)"
    using h rws by (simp add: wf_table_def)
  show "\<exists>r. annotate e df = Inr r \<and>
             cell_at (columns (processed_df r)) (hd (rows (processed_df r))) ''Address Suggestions''
               = Some (Api (fst (get_address_suggestions e (address_of institute country)))) \<and>
             rows (unprocessed_df r) = tl (rows df)"
    using h rws annotate_first_row [OF rws, of institute country e]
    by (simp add: Let_def cell_at_put_cell [OF len] DataFrame_def)
qed

theorem suggestion_of_answer_witness:
  "fst (get_address_suggestions example_env ''IIT Delhi, India'')
     = JStr ''IIT Delhi, New Delhi, India'' \<and>
   fst (get_address_suggestions example_env ''Atlantis, Unknown'') = JStr ''No suggestion'' \<and>
   fst (get_address_suggestions example_env ''Unknown, Unknown'')
     = JStr ''Request error: Connection refused'' \<and>
   fst (get_address_suggestions example_env ''Nowhere'')
     = JStr (''Error: '' @ quoted ''list'' @ '' object has no attribute '' @ quoted ''get'') \<and>
   (\<exists>r. annotate example_env failing_sheet = Inr r \<and>
        cell_at (columns (processed_df r)) (hd (rows (processed_df r))) ''Address Suggestions''
          = Some (Api (JStr ''Request error: Connection refused'')) \<and>
        rows (unprocessed_df r) = tl (rows failing_sheet))"
proof -
  let ?props = "[(''formatted'', JStr ''IIT Delhi, New Delhi, India'')]"
  let ?first = "[(''properties'', JObj ?props)]"
  let ?others = "[JObj [(''properties'', JObj [(''formatted'', JStr ''Delhi, India'')])]]"
  let ?body = "[(''type'', JStr ''FeatureCollection''), (''features'', JArr (JObj ?first # ?others))]"
  have known: "request example_env ''IIT Delhi, India'' = Inr (JObj ?body) \<and>
      map_of ?body ''features'' = Some (JArr (JObj ?first # ?others)) \<and>
      map_of ?first ''properties'' = Some (JObj ?props) \<and>
      map_of ?props ''formatted'' = Some (JStr ''IIT Delhi, New Delhi, India'')"
    by (simp add: request_def example_env_def example_answer_def)
  have none: "request example_env ''Atlantis, Unknown'' = Inr (JObj [(''features'', JArr [])]) \<and>
      map_of [(''features'', JArr [])] ''features'' = Some (JArr [])"
    by (simp add: request_def example_env_def)
  have refused: "request example_env ''Unknown, Unknown'' = Inl (RequestException ''Connection refused'')"
    by (simp add: request_def example_env_def)
  have other: "request_suggestion example_env ''Nowhere''
      = Inl (Exception (quoted ''list'' @ '' object has no attribute '' @ quoted ''get''))"
    by (simp add: request_suggestion_def request_def example_env_def and_then_def)
  have sheet: "wf_table failing_sheet \<and> rows failing_sheet \<noteq> [] \<and>
      cell_at (columns failing_sheet) (hd (rows failing_sheet)) ''Education Institute''
        = Some (Text ''Unknown'') \<and>
      cell_at (columns failing_sheet) (hd (rows failing_sheet)) ''Country Name''
        = Some (Text ''Unknown'')"
    by (simp add: failing_sheet_def wf_table_def cell_at_def)
  have address: "address_of (Text ''Unknown'') (Text ''Unknown'') = ''Unknown, Unknown''"
    by (simp add: address_of_def)
  note thm1 = suggestion_of_answer [where e = example_env and address = "''IIT Delhi, India''"
      and body = ?body and first = ?first and others = ?others and properties = ?props
      and formatted = "JStr ''IIT Delhi, New Delhi, India''"]
  note thm2 = suggestion_of_answer [where e = example_env and address = "''Atlantis, Unknown''"
      and body = "[(''features'', JArr [])]"]
  note thm3 = suggestion_of_answer [where e = example_env and address = "''Unknown, Unknown''"
      and m = "''Connection refused''" and df = failing_sheet
      and institute = "Text ''Unknown''" and country = "Text ''Unknown''"]
  note thm4 = suggestion_of_answer [where e = example_env and address = "''Nowhere''"
      and m = "quoted ''list'' @ '' object has no attribute '' @ quoted ''get''"]
  have c1: "fst (get_address_suggestions example_env ''IIT Delhi, India'')
     = JStr ''IIT Delhi, New Delhi, India''"
    using thm1 known by blast
  have c2: "fst (get_address_suggestions example_env ''Atlantis, Unknown'') = JStr ''No suggestion''"
    using thm2 none by blast
  have c3: "fst (get_address_suggestions example_env ''Unknown, Unknown'')
     = JStr ''Request error: Connection refused''"
    using thm3 refused by simp
  have c4: "fst (get_address_suggestions example_env ''Nowhere'')
     = JStr (''Error: '' @ quoted ''list'' @ '' object has no attribute '' @ quoted ''get'')"
    using thm4 other by blast
  have c5: "\<exists>r. annotate example_env failing_sheet = Inr r \<and>
        cell_at (columns (processed_df r)) (hd (rows (processed_df r))) ''Address Suggestions''
          = Some (Api (fst (get_address_suggestions example_env
               (address_of (Text ''Unknown'') (Text ''Unknown''))))) \<and>
        rows (unprocessed_df r) = tl (rows failing_sheet)"
    using thm3 sheet by blast
  show ?thesis
    using c1 c2 c3 c4 c5 unfolding address c3 by blast
qed

section \<open>The Cleaner's properties\<close>

text \<open>
  Claim C3, as amended. The frame that the Cleaner returns has exactly one row for each
  distinct row of the sheet that has no \<open>Total\<close> in any cell: the row derived from it.
  Its rows are pairwise different when no two different rows of the sheet have the same
  derived row.
\<close>

theorem one_row_per_distinct_row:
  assumes "snd (clean_sort_create_columns df) = Inr out"
  shows "mset (rows out) =
           image_mset (derived_row (columns df))
             (mset_set {row \<in> set (rows df). \<not> contains_Total row}) \<and>
         (inj_on (derived_row (columns df)) (set (rows df)) \<longrightarrow> distinct (rows out))"
proof -
  note res = cleaner_result [OF assms]
  have m: "mset (rows out) = image_mset (derived_row (columns df)) (mset (surviving_rows df))"
    by (simp add: res(3))
  have "distinct (rows out)" if inj: "inj_on (derived_row (columns df)) (set (rows df))"
  proof -
    have "inj_on (derived_row (columns df)) (set (surviving_rows df))"
      by (rule inj_on_subset [OF inj]) (auto simp: set_surviving_rows)
    then have "distinct (map (derived_row (columns df)) (surviving_rows df))"
      by (simp add: distinct_map surviving_rows_def distinct_keep_first)
    then show ?thesis by (simp add: res(3))
  qed
  then show ?thesis using m by (simp add: mset_surviving_rows)
qed

theorem one_row_per_distinct_row_witness:
  "snd (clean_sort_create_columns example_sheet) = Inr example_cleaned \<and>
   mset (rows example_cleaned) =
     image_mset (derived_row (columns example_sheet))
       (mset_set {row \<in> set (rows example_sheet). \<not> contains_Total row}) \<and>
   distinct (rows example_cleaned)"
proof -
  note run = example_sheet_cleaned
  have "distinct (map (derived_row (columns example_sheet)) (remdups (rows example_sheet)))"
    by code_simp
  then have "inj_on (derived_row (columns example_sheet)) (set (rows example_sheet))"
    by (simp add: distinct_map)
  then show ?thesis
    using one_row_per_distinct_row [OF run] run by blast
qed

text \<open>
  Claim C3 as it is written fails: duplicates are dropped before blank cells are filled,
  so a row with a blank cell and a row with the text \<open>Unknown\<close> in its place both stay,
  and the frame returned has the same row twice.
\<close>

theorem filled_rows_coincide_counterexample:
  "\<not> distinct (rows unknown_sheet) \<and>
   snd (clean_sort_create_columns unknown_sheet) = Inr unknown_cleaned \<and>
   count_list (rows unknown_cleaned)
     [Text ''Kenya'', Text ''Unknown'', Text ''Strathmore'', Text ''Law'',
      Text ''Unknown'', Text ''Kenya'', Text ''Unknown'', Text ''Unknown'',
      Text ''Strathmore'', Text ''Law''] = 2"
  by code_simp

text \<open>
  Claim C4. When the Cleaner returns a frame for a sheet, no row of that frame has
  \<open>Total\<close> in any cell, and the rows of the frame are exactly the rows derived from the
  rows of the sheet without \<open>Total\<close> in any cell: a row with \<open>Total\<close> leaves no row
  behind, and every other row is there.
\<close>

theorem Total_rows_removed:
  assumes "wf_table df" and "snd (clean_sort_create_columns df) = Inr out"
  shows "(\<forall>row \<in> set (rows out). \<not> contains_Total row) \<and>
         set (rows out) =
           derived_row (columns df) ` {row \<in> set (rows df). \<not> contains_Total row}"
proof -
  note res = cleaner_result [OF assms(2)]
  have rows_out: "set (rows out) = derived_row (columns df) ` set (surviving_rows df)"
    by (simp add: res(3))
  have "\<not> contains_Total (derived_row (columns df) row)"
    if "row \<in> set (surviving_rows df)" for row
  proof -
    have "row \<in> set (rows df)" "\<not> contains_Total row"
      using that by (simp_all add: set_surviving_rows)
    then show ?thesis
      using derived_row_no_Total [OF wf_table_row [OF assms(1)] res(1)] by blast
  qed
  then show ?thesis
    using rows_out by (auto simp: set_surviving_rows)
qed

theorem Total_rows_removed_witness:
  "wf_table example_sheet \<and>
   snd (clean_sort_create_columns example_sheet) = Inr example_cleaned \<and>
   list_all (\<lambda>row. \<not> contains_Total row) (rows example_cleaned) \<and>
   set (rows example_cleaned) =
     derived_row (columns example_sheet) `
       {row \<in> set (rows example_sheet). \<not> contains_Total row}"
proof -
  note wf = example_sheet_wf
  note run = example_sheet_cleaned
  show ?thesis
    unfolding list_all_iff using Total_rows_removed [OF wf run] wf run by blast
qed

text \<open>
  Claim C5, as amended. For every row of the sheet that is left after the duplicates and
  the rows with \<open>Total\<close> are dropped, the row derived from it is in the frame returned,
  and every cell of the row that was blank reads \<open>Unknown\<close> there, in every column
  except \<open>country\<close>, \<open>region\<close>, \<open>education institution\<close> and \<open>field of study\<close>.
\<close>

theorem blanks_filled:
  assumes "wf_table df" and "snd (clean_sort_create_columns df) = Inr out"
  shows "\<forall>row \<in> set (surviving_rows df).
           derived_row (columns df) row \<in> set (rows out) \<and>
           (\<forall>c. cell_at (columns df) row c = Some Blank \<and> c \<notin> set copied_columns \<longrightarrow>
                cell_at (columns out) (derived_row (columns df) row) c = Some (Text ''Unknown''))"
proof
  fix row
  assume row: "row \<in> set (surviving_rows df)"
  note res = cleaner_result [OF assms(2)]
  have len: "length row = length (columns df)"
    using row assms(1) by (simp add: set_surviving_rows wf_table_row)
  have cells: "cell_at (columns out) (derived_row (columns df) row) c = Some (Text ''Unknown'')"
    if "cell_at (columns df) row c = Some Blank" "c \<notin> set copied_columns" for c
    using that unfolding res(2) derived_row_facts(2) [OF len res(1)]
    by (simp add: Let_def copied_columns_def)
  have "derived_row (columns df) row \<in> set (rows out)"
    using row by (simp add: res(3))
  then show "derived_row (columns df) row \<in> set (rows out) \<and>
           (\<forall>c. cell_at (columns df) row c = Some Blank \<and> c \<notin> set copied_columns \<longrightarrow>
                cell_at (columns out) (derived_row (columns df) row) c = Some (Text ''Unknown''))"
    using cells by blast
qed

theorem blanks_filled_witness:
  "wf_table example_sheet \<and>
   snd (clean_sort_create_columns example_sheet) = Inr example_cleaned \<and>
   [Text ''India'', Blank, Text ''IIT Delhi'', Text ''Physics'', Blank]
     \<in> set (surviving_rows example_sheet) \<and>
   cell_at (columns example_sheet)
     [Text ''India'', Blank, Text ''IIT Delhi'', Text ''Physics'', Blank] ''Students'' = Some Blank \<and>
   cell_at (columns example_cleaned)
     (derived_row (columns example_sheet)
        [Text ''India'', Blank, Text ''IIT Delhi'', Text ''Physics'', Blank]) ''Students''
     = Some (Text ''Unknown'')"
proof -
  note wf = example_sheet_wf
  note run = example_sheet_cleaned
  have row: "[Text ''India'', Blank, Text ''IIT Delhi'', Text ''Physics'', Blank]
     \<in> set (surviving_rows example_sheet)"
    by code_simp
  have blank: "cell_at (columns example_sheet)
     [Text ''India'', Blank, Text ''IIT Delhi'', Text ''Physics'', Blank] ''Students'' = Some Blank"
    by code_simp
  have other: "''Students'' \<notin> set copied_columns"
    by (simp add: copied_columns_def)
  show ?thesis
    using blanks_filled [OF wf run] wf run row blank other by blast
qed

text \<open>
  Claim C5 as it is written fails on a sheet that already has a column \<open>country\<close>: its
  blank cell is filled with \<open>Unknown\<close> and then overwritten with the country's name.
\<close>

theorem overwritten_blank_counterexample:
  "wf_table labelled_sheet \<and>
   snd (clean_sort_create_columns labelled_sheet) = Inr labelled_cleaned \<and>
   surviving_rows labelled_sheet = rows labelled_sheet \<and>
   cell_at (columns labelled_sheet) (hd (rows labelled_sheet)) ''country'' = Some Blank \<and>
   rows labelled_cleaned = [derived_row (columns labelled_sheet) (hd (rows labelled_sheet))] \<and>
   cell_at (columns labelled_cleaned) (hd (rows labelled_cleaned)) ''country'' = Some (Text ''Kenya'')"
  by code_simp

text \<open>
  Claim C6, as amended. When none of the six names is a column of the sheet, the columns
  of the frame returned are those of the sheet followed by \<open>continent\<close>, \<open>country\<close>,
  \<open>region\<close>, \<open>state\<close>, \<open>education institution\<close> and \<open>field of study\<close>. In every row of
  the frame, for any sheet, \<open>continent\<close> and \<open>state\<close> read \<open>Unknown\<close>, and \<open>country\<close>,
  \<open>region\<close>, \<open>education institution\<close> and \<open>field of study\<close> hold the cell that the row
  has in \<open>Country Name\<close>, \<open>Region\<close>, \<open>Education Institute\<close> and \<open>Field of Study\<close>.
\<close>

theorem derived_columns_set:
  assumes "wf_table df" and "snd (clean_sort_create_columns df) = Inr out"
  shows "(set sort_keys \<inter> set (columns df) = {} \<longrightarrow> columns out = columns df @ sort_keys) \<and>
         wf_table out \<and>
         (\<forall>row \<in> set (rows out).
            cell_at (columns out) row ''continent'' = Some (Text ''Unknown'') \<and>
            cell_at (columns out) row ''state'' = Some (Text ''Unknown'') \<and>
            (\<exists>v. cell_at (columns out) row ''Country Name'' = Some v \<and>
                 cell_at (columns out) row ''country'' = Some v) \<and>
            (\<exists>v. cell_at (columns out) row ''Region'' = Some v \<and>
                 cell_at (columns out) row ''region'' = Some v) \<and>
            (\<exists>v. cell_at (columns out) row ''Education Institute'' = Some v \<and>
                 cell_at (columns out) row ''education institution'' = Some v) \<and>
            (\<exists>v. cell_at (columns out) row ''Field of Study'' = Some v \<and>
                 cell_at (columns out) row ''field of study'' = Some v))"
proof -
  note res = cleaner_result [OF assms(2)]
  have mem: "''Country Name'' \<in> set (columns df)" "''Region'' \<in> set (columns df)"
    "''Education Institute'' \<in> set (columns df)" "''Field of Study'' \<in> set (columns df)"
    using res(1) by (simp_all add: source_columns_def)
  have cols: "set sort_keys \<inter> set (columns df) = {} \<longrightarrow> columns out = columns df @ sort_keys"
    by (simp add: res(2) derived_columns_new)
  have "length r = length (columns out)" if "r \<in> set (rows out)" for r
  proof -
    have "r \<in> derived_row (columns df) ` set (surviving_rows df)"
      using that by (simp add: res(3))
    then obtain row where row: "row \<in> set (surviving_rows df)" "r = derived_row (columns df) row"
      by blast
    have "length row = length (columns df)"
      using row(1) assms(1) by (simp add: set_surviving_rows wf_table_row)
    then show ?thesis
      by (simp add: row(2) res(2) derived_row_facts(1) [OF _ res(1)])
  qed
  then have wf_out: "wf_table out"
    by (simp add: wf_table_def list_all_iff)
  have "cell_at (columns out) r ''continent'' = Some (Text ''Unknown'') \<and>
        cell_at (columns out) r ''state'' = Some (Text ''Unknown'') \<and>
        (\<exists>v. cell_at (columns out) r ''Country Name'' = Some v \<and>
             cell_at (columns out) r ''country'' = Some v) \<and>
        (\<exists>v. cell_at (columns out) r ''Region'' = Some v \<and>
             cell_at (columns out) r ''region'' = Some v) \<and>
        (\<exists>v. cell_at (columns out) r ''Education Institute'' = Some v \<and>
             cell_at (columns out) r ''education institution'' = Some v) \<and>
        (\<exists>v. cell_at (columns out) r ''Field of Study'' = Some v \<and>
             cell_at (columns out) r ''field of study'' = Some v)"
    if "r \<in> set (rows out)" for r
  proof -
    have "r \<in> derived_row (columns df) ` set (surviving_rows df)"
      using that by (simp add: res(3))
    then obtain row where row: "row \<in> set (surviving_rows df)" "r = derived_row (columns df) row"
      by blast
    have len: "length row = length (columns df)"
      using row(1) assms(1) by (simp add: set_surviving_rows wf_table_row)
    obtain a b c d where
      "cell_at (columns df) row ''Country Name'' = Some a"
      "cell_at (columns df) row ''Region'' = Some b"
      "cell_at (columns df) row ''Education Institute'' = Some c"
      "cell_at (columns df) row ''Field of Study'' = Some d"
      using cell_at_present [OF _ len] mem by metis
    then show ?thesis
      unfolding row(2) res(2) derived_row_facts(2) [OF len res(1)]
      by (simp add: Let_def)
  qed
  then show ?thesis using cols wf_out by blast
qed

theorem derived_columns_set_witness:
  "wf_table example_sheet \<and>
   snd (clean_sort_create_columns example_sheet) = Inr example_cleaned \<and>
   set sort_keys \<inter> set (columns example_sheet) = {} \<and>
   columns example_cleaned = columns example_sheet @ sort_keys \<and>
   wf_table example_cleaned \<and>
   cell_at (columns example_cleaned) (hd (rows example_cleaned)) ''continent''
     = Some (Text ''Unknown'') \<and>
   cell_at (columns example_cleaned) (hd (rows example_cleaned)) ''country''
     = Some (Text ''India'')"
proof -
  note wf = example_sheet_wf
  note run = example_sheet_cleaned
  have new: "set sort_keys \<inter> set (columns example_sheet) = {}"
    by (simp add: sort_keys_def example_sheet_def)
  have row: "hd (rows example_cleaned) \<in> set (rows example_cleaned)"
    by (simp add: example_cleaned_def)
  have india: "cell_at (columns example_cleaned) (hd (rows example_cleaned)) ''country''
     = Some (Text ''India'')"
    by code_simp
  show ?thesis
    using derived_columns_set [OF wf run] wf run new row india by blast
qed

text \<open>
  Claim C6 as it is written fails on a sheet that already has columns \<open>country\<close> and
  \<open>state\<close>: they are overwritten where they stand, and only four columns are appended.
\<close>

theorem existing_column_counterexample:
  "wf_table labelled_sheet \<and>
   snd (clean_sort_create_columns labelled_sheet) = Inr labelled_cleaned \<and>
   length (columns labelled_cleaned) = length (columns labelled_sheet) + 4 \<and>
   columns labelled_cleaned \<noteq> columns labelled_sheet @ sort_keys"
  by code_simp

text \<open>
  Claim C7, as amended. The rows of the frame returned are non-decreasing in the tuple of
  their six key cells, where numbers come before texts, numbers are ordered by value and
  texts by code point. When every key cell of the frame is a text, the rows are
  non-decreasing in the lexical order of the keys as strings.
\<close>

theorem sorted_by_keys:
  assumes "snd (clean_sort_create_columns df) = Inr out"
  shows "sorted (map (key_cells (columns out)) (rows out)) \<and>
         ((\<forall>row \<in> set (rows out). \<forall>c \<in> set (key_cells (columns out) row). \<exists>s. c = Text s) \<longrightarrow>
          sorted (map (string_keys (columns out)) (rows out)))"
proof -
  note res = cleaner_result [OF assms]
  have sorted: "sorted (map (key_cells (columns out)) (rows out))"
    by (simp add: res(2,3))
  moreover have "sorted (map (string_keys (columns out)) (rows out))"
    if "\<forall>row \<in> set (rows out). \<forall>c \<in> set (key_cells (columns out) row). \<exists>s. c = Text s"
    using sorted
  proof (rule sorted_map_mono)
    fix x y
    assume "x \<in> set (rows out)" "y \<in> set (rows out)"
      and "key_cells (columns out) x \<le> key_cells (columns out) y"
    then show "string_keys (columns out) x \<le> string_keys (columns out) y"
      unfolding string_keys_def using that by (intro text_keys_le) auto
  qed
  ultimately show ?thesis by blast
qed

theorem sorted_by_keys_witness:
  "snd (clean_sort_create_columns example_sheet) = Inr example_cleaned \<and>
   sorted (map (key_cells (columns example_cleaned)) (rows example_cleaned)) \<and>
   sorted (map (string_keys (columns example_cleaned)) (rows example_cleaned))"
proof -
  note run = example_sheet_cleaned
  have texts: "\<forall>row \<in> set (rows example_cleaned).
      \<forall>c \<in> set (key_cells (columns example_cleaned) row). \<exists>s. c = Text s"
    by (simp add: example_cleaned_def key_cells_def sort_keys_def and_then_def)
  show ?thesis
    using sorted_by_keys [OF run] run texts by blast
qed

text \<open>
  Claim C7 as it is written fails on a sheet whose regions are numbers: \<open>9\<close> is sorted
  before \<open>10\<close>, and as strings \<open>9\<close> comes after \<open>10\<close>.
\<close>

theorem string_order_counterexample:
  "snd (clean_sort_create_columns numbered_sheet) = Inr numbered_cleaned \<and>
   \<not> sorted (map (string_keys (columns numbered_cleaned)) (rows numbered_cleaned))"
  by code_simp


section \<open>Failures in the Annotator\<close>

text \<open>
  Claim C9. When the file of the processed rows cannot be written, no such file exists
  after the run, the error is logged, and the next line of the log announces the saving
  of the unprocessed rows; that file is written if it can be. The processed and the
  unprocessed frame are those of a run in which every file can be written.
\<close>

theorem failed_save_goes_on:
  assumes "annotate e df = Inr r" and "to_excel e autocomplete_file_path = Some m"
  shows "processed_file r = None \<and>
         (\<exists>before after. run_log r =
            before @ [(ERROR, ''Error saving Excel file: '' @ m),
                      (INFO, ''Saving unprocessed rows to: '' @ unprocessed_file_path)] @ after) \<and>
         (to_excel e unprocessed_file_path = None \<longrightarrow>
            unprocessed_file r = Some (unprocessed_df r)) \<and>
         (\<exists>r'. annotate (e\<lparr>to_excel := \<lambda>path. None\<rparr>) df = Inr r' \<and>
               processed_file r' = Some (processed_df r') \<and>
               processed_df r' = processed_df r \<and> unprocessed_df r' = unprocessed_df r)"
proof -
  note saves = annotate_saves [OF assms(1)]
  have unsaved: "processed_file r = None"
    by (simp add: saves(1) save_excel_def assms(2))
  obtain before where
    "run_log r = before @ [(ERROR, ''Error saving Excel file: '' @ m)] @
       [(INFO, ''Saving unprocessed rows to: '' @ unprocessed_file_path)] @
       snd (save_excel e unprocessed_file_path (unprocessed_df r)
              ''The unprocessed rows have been saved to ''
              ''Error saving unprocessed rows: '')"
    using saves(3) by (auto simp: save_excel_def assms(2))
  then have lines: "\<exists>before after. run_log r =
            before @ [(ERROR, ''Error saving Excel file: '' @ m),
                      (INFO, ''Saving unprocessed rows to: '' @ unprocessed_file_path)] @ after"
    by auto
  have second: "to_excel e unprocessed_file_path = None \<longrightarrow>
            unprocessed_file r = Some (unprocessed_df r)"
    by (simp add: saves(2) save_excel_def)
  obtain r' where r': "annotate (e\<lparr>to_excel := \<lambda>path. None\<rparr>) df = Inr r'"
    "processed_df r' = processed_df r" "unprocessed_df r' = unprocessed_df r"
    using annotate_frames [OF assms(1)] by blast
  have "processed_file r' = Some (processed_df r')"
    using annotate_saves(1) [OF r'(1)] by (simp add: save_excel_def)
  then show ?thesis
    using unsaved lines second r' by blast
qed

theorem failed_save_goes_on_witness:
  "annotate example_env failing_sheet = Inr failing_run \<and>
   to_excel example_env autocomplete_file_path = Some ''Permission denied'' \<and>
   to_excel example_env unprocessed_file_path = None \<and>
   processed_file failing_run = None \<and>
   unprocessed_file failing_run = Some (unprocessed_df failing_run) \<and>
   (\<exists>before after. run_log failing_run =
      before @ [(ERROR, ''Error saving Excel file: '' @ ''Permission denied''),
                (INFO, ''Saving unprocessed rows to: '' @ unprocessed_file_path)] @ after) \<and>
   (\<exists>r'. annotate (example_env\<lparr>to_excel := \<lambda>path. None\<rparr>) failing_sheet = Inr r' \<and>
         processed_file r' = Some (processed_df r') \<and>
         processed_df r' = processed_df failing_run \<and>
         unprocessed_df r' = unprocessed_df failing_run)"
proof -
  note run = failing_run_test
  have denied: "to_excel example_env autocomplete_file_path = Some ''Permission denied''"
    by (simp add: example_env_def)
  have written: "to_excel example_env unprocessed_file_path = None"
    by code_simp
  show ?thesis
    using failed_save_goes_on [OF run denied] run denied written by blast
qed



text \<open>
  A \<open>properties\<close> member that is \<open>null\<close> is not a missing key: \<open>get\<close> returns it, and
  the second \<open>get\<close> raises.
\<close>

lemma null_properties_is_error:
  assumes "request e address = Inr (JObj body)"
    and "map_of body ''features'' = Some (JArr (JObj first # others))"
    and "map_of first ''properties'' = Some JNull"
  shows "fst (get_address_suggestions e address) =
         JStr (''Error: '' @ quoted ''NoneType'' @ '' object has no attribute '' @ quoted ''get'')"
  using assms
  by (simp add: get_address_suggestions_def request_suggestion_def and_then_def)

end
